theory Spec2Isabelle
  imports Main "HOL-Library.Word"
begin

section \<open>JavaScript primitives used by the sources\<close>

text \<open>
  Strings are character lists. \<open>startsWith\<close> and \<open>jsIncludes\<close> are
  \<^verbatim>\<open>String.prototype.startsWith\<close> and \<^verbatim>\<open>String.prototype.includes\<close>; both are
  also used on byte lists below.
\<close>

definition startsWith :: "'a list \<Rightarrow> 'a list \<Rightarrow> bool" where
  "startsWith s p = (take (length p) s = p)"

fun jsIncludes :: "'a list \<Rightarrow> 'a list \<Rightarrow> bool" where
  "jsIncludes [] sub = (sub = [])"
| "jsIncludes (c # cs) sub = (startsWith (c # cs) sub \<or> jsIncludes cs sub)"

text \<open>\<^verbatim>\<open>type?.includes(x)\<close>: \<^verbatim>\<open>undefined\<close> (falsy) when the receiver is undefined.\<close>

definition opt_includes :: "string option \<Rightarrow> string \<Rightarrow> bool" where
  "opt_includes t sub = (case t of None \<Rightarrow> False | Some s \<Rightarrow> jsIncludes s sub)"

text \<open>Truthiness of \<^verbatim>\<open>string | undefined\<close> and of \<^verbatim>\<open>number | undefined\<close>.\<close>

definition truthy_str :: "string option \<Rightarrow> bool" where
  "truthy_str v = (case v of None \<Rightarrow> False | Some s \<Rightarrow> s \<noteq> [])"

definition truthy_nat :: "nat option \<Rightarrow> bool" where
  "truthy_nat v = (case v of None \<Rightarrow> False | Some n \<Rightarrow> n \<noteq> 0)"

definition truthy_int :: "int option \<Rightarrow> bool" where
  "truthy_int v = (case v of None \<Rightarrow> False | Some n \<Rightarrow> n \<noteq> 0)"

text \<open>\<^verbatim>\<open>a || b\<close> on \<^verbatim>\<open>string | undefined\<close> operands.\<close>

definition or_str :: "string option \<Rightarrow> string option \<Rightarrow> string option" where
  "or_str a b = (if truthy_str a then a else b)"

definition isDigit :: "char \<Rightarrow> bool" where
  "isDigit c = (c \<in> set ''0123456789'')"

definition digitVal :: "char \<Rightarrow> nat" where
  "digitVal c = of_char c - 48"

text \<open>Value of a run of decimal digits, most significant first.\<close>

definition digitsVal :: "string \<Rightarrow> nat" where
  "digitsVal ds = foldl (\<lambda>acc c. 10 * acc + digitVal c) 0 ds"

text \<open>
  White space as \<^verbatim>\<open>String.prototype.trim\<close> and \<^verbatim>\<open>parseInt\<close> strip it, restricted to
  the one-byte characters: TAB, LF, VT, FF, CR, SPACE and NBSP.
\<close>

definition isSpace :: "char \<Rightarrow> bool" where
  "isSpace c = (of_char c \<in> {9, 10, 11, 12, 13, 32, 160 :: nat})"

definition trim :: "string \<Rightarrow> string" where
  "trim s = rev (dropWhile isSpace (rev (dropWhile isSpace s)))"

text \<open>
  \<^verbatim>\<open>parseInt(s, 10)\<close>: leading white space, an optional sign, then the longest run of
  digits; \<open>None\<close> stands for \<^verbatim>\<open>NaN\<close> (no digit found).
\<close>

definition parseInt10 :: "string \<Rightarrow> int option" where
  "parseInt10 s =
     (let t = dropWhile isSpace s;
          neg = (case t of [] \<Rightarrow> False | c # _ \<Rightarrow> c = CHR ''-'');
          u = (case t of [] \<Rightarrow> [] | c # cs \<Rightarrow> if c = CHR ''-'' \<or> c = CHR ''+'' then cs else t);
          ds = takeWhile isDigit u
      in if ds = [] then None
         else Some (if neg then - int (digitsVal ds) else int (digitsVal ds)))"

text \<open>Decimal rendering of a number in a template literal.\<close>

function showNat :: "nat \<Rightarrow> string" where
  "showNat n =
     (if n < 10 then [''0123456789'' ! n]
      else showNat (n div 10) @ [''0123456789'' ! (n mod 10)])"
  by pat_completeness auto
termination
  by (relation "measure id") auto

declare showNat.simps [simp del]

section \<open>Scoring model (page-analyzer.ts)\<close>

text \<open>
  \<^verbatim>\<open>parseSizes\<close>: the first match of \<^verbatim>\<open>/(\d+)x\d+/\<close>. The leftmost match starts at the
  beginning of a maximal digit run that is followed by \<^verbatim>\<open>x\<close> and a digit; the captured
  group is that run.
\<close>

function sizesMatch :: "string \<Rightarrow> string option" where
  "sizesMatch [] = None"
| "sizesMatch (c # cs) =
     (if isDigit c then
        (let run = c # takeWhile isDigit cs; rest = dropWhile isDigit cs
         in case rest of
              x # d # _ \<Rightarrow> if x = CHR ''x'' \<and> isDigit d then Some run else sizesMatch rest
            | _ \<Rightarrow> sizesMatch rest)
      else sizesMatch cs)"
  by pat_completeness auto
termination
  by (relation "measure length") (auto simp: less_Suc_eq_le length_dropWhile_le)

definition parseSizes :: "string option \<Rightarrow> nat option" where
  "parseSizes sizes =
     (if \<not> truthy_str sizes then None
      else case sizesMatch (the sizes) of
             None \<Rightarrow> None
           | Some run \<Rightarrow> Some (digitsVal run))"

definition calculateFaviconScore :: "nat option \<Rightarrow> string option \<Rightarrow> string \<Rightarrow> int" where
  "calculateFaviconScore sz type rel =
     (let score = 50;
          score = (if opt_includes type ''svg'' then score + 100 else score);
          score = (if truthy_nat sz then
                     (let size = the sz in
                      if size \<ge> 512 then score + 90
                      else if size \<ge> 256 then score + 80
                      else if size \<ge> 192 then score + 70
                      else if size \<ge> 128 then score + 60
                      else if size \<ge> 64 then score + 50
                      else if size \<ge> 32 then score + 40
                      else score)
                   else score);
          score = (if opt_includes type ''png'' then score + 20
                   else if opt_includes type ''webp'' then score + 15
                   else if opt_includes type ''gif'' then score + 10
                   else if opt_includes type ''ico'' then score + 5
                   else score);
          score = (if jsIncludes rel ''apple-touch-icon'' then score + 10 else score);
          score = (if jsIncludes rel ''mask-icon'' then score - 10 else score)
      in score)"

text \<open>
  \<^verbatim>\<open>calculateOGScore\<close> (and its copy \<^verbatim>\<open>calculateScore\<close> in the OG finder). Dimensions are
  \<^verbatim>\<open>number | undefined\<close>; \<^verbatim>\<open>NaN\<close> from \<^verbatim>\<open>parseInt\<close> is falsy like \<^verbatim>\<open>undefined\<close> and is
  represented by \<open>None\<close>.
\<close>

definition calculateOGScore :: "int option \<Rightarrow> int option \<Rightarrow> string \<Rightarrow> string option \<Rightarrow> int" where
  "calculateOGScore width height source type =
     (let score = 50;
          score = (if source = ''og:image'' then score + 100
                   else if source = ''twitter:image'' then score + 80
                   else if source = ''schema.org'' then score + 60
                   else score);
          score = (if truthy_int width \<and> truthy_int height then
                     (let area = the width * the height in
                      if area \<ge> 1200 * 630 then score + 90
                      else if area \<ge> 800 * 600 then score + 80
                      else if area \<ge> 600 * 400 then score + 70
                      else if area \<ge> 400 * 300 then score + 60
                      else if area \<ge> 300 * 200 then score + 50
                      else score)
                   else if truthy_int width \<or> truthy_int height then
                     (let dimension = (if truthy_int width then the width else the height) in
                      if dimension \<ge> 1200 then score + 70
                      else if dimension \<ge> 800 then score + 60
                      else if dimension \<ge> 600 then score + 50
                      else score)
                   else score);
          score = (if opt_includes type ''png'' then score + 20
                   else if opt_includes type ''jpeg'' \<or> opt_includes type ''jpg'' then score + 15
                   else if opt_includes type ''webp'' then score + 25
                   else score)
      in score)"

section \<open>URL resolver (page-analyzer.ts and the OG finder, identical text)\<close>

text \<open>
  \<^verbatim>\<open>isDataUrl\<close> lives in \<^verbatim>\<open>lib/validators\<close>, which is not among the sources; the resolver
  takes it as a parameter.
\<close>

definition resolveUrl :: "(string \<Rightarrow> bool) \<Rightarrow> string \<Rightarrow> string \<Rightarrow> string" where
  "resolveUrl isDataUrl url baseUrl =
     (if isDataUrl url then url
      else if startsWith url ''http'' then url
      else if startsWith url ''//'' then ''https:'' @ url
      else if startsWith url ''/'' then baseUrl @ url
      else baseUrl @ ''/'' @ url)"

text \<open>
  Modelled from the spec: \<^verbatim>\<open>isDataUrl\<close> of \<^verbatim>\<open>lib/validators\<close> is missing; the spec speaks
  of data URIs such as \<^verbatim>\<open>data:image/png;base64,...\<close>, which are recognised by their
  \<^verbatim>\<open>data:\<close> prefix. Used only to instantiate the parameter at concrete inputs.
\<close>

definition isDataUrl_spec :: "string \<Rightarrow> bool" where
  "isDataUrl_spec url = startsWith url ''data:''"

section \<open>Data model (types/index.ts and the literals the sources build)\<close>

type_synonym bytes = "8 word list"

text \<open>Outcome of a call that may throw, or of a promise that may reject.\<close>

datatype 'a attempt = Raised | Returned 'a

text \<open>
  The candidate objects as the sources build them: the \<^verbatim>\<open>source\<close> tag is a string
  literal, and \<^verbatim>\<open>isFallback\<close> is absent (\<open>None\<close>, falsy) unless a literal sets it.
\<close>

record FaviconSource =
  fs_url :: string
  fs_size :: "nat option"
  fs_format :: "string option"
  fs_source :: string
  fs_score :: int
  fs_isFallback :: "bool option"

record OGImageSource =
  og_url :: string
  og_width :: "int option"
  og_height :: "int option"
  og_alt :: "string option"
  og_type :: "string option"
  og_source :: string
  og_score :: int
  og_isFallback :: "bool option"

text \<open>The object \<^verbatim>\<open>fetchBestOGImage\<close> returns.\<close>

record ResolvedAsset =
  ra_data :: bytes
  ra_format :: string
  ra_source :: string
  ra_url :: string
  ra_isFallback :: "bool option"

record AppConfig =
  USER_AGENT :: string
  REQUEST_TIMEOUT :: nat
  MAX_IMAGE_SIZE :: nat
  USE_FALLBACK_API :: bool

section \<open>Candidate resolver (the OG finder)\<close>

text \<open>\<^verbatim>\<open>buffer[i]\<close>: \<^verbatim>\<open>undefined\<close> beyond the end, which equals no byte.\<close>

definition byteAt :: "bytes \<Rightarrow> nat \<Rightarrow> 8 word option" where
  "byteAt buffer i = (if i < length buffer then Some (buffer ! i) else None)"

text \<open>
  \<^verbatim>\<open>buffer.toString('utf8', 0, 5).includes('<svg')\<close>. The four characters are ASCII, and
  UTF-8 decoding maps a byte below 128 to itself and no other byte sequence to an ASCII
  character, so the test is the occurrence of the bytes 3C 73 76 67 within the first five
  bytes.
\<close>

definition svgSniff :: "bytes \<Rightarrow> bool" where
  "svgSniff buffer = jsIncludes (take 5 buffer) [0x3C, 0x73, 0x76, 0x67]"

definition detectFormat :: "bytes \<Rightarrow> string option \<Rightarrow> string" where
  "detectFormat buffer hint =
     (if byteAt buffer 0 = Some 0x89 \<and> byteAt buffer 1 = Some 0x50 then ''png''
      else if byteAt buffer 0 = Some 0xFF \<and> byteAt buffer 1 = Some 0xD8 then ''jpg''
      else if byteAt buffer 0 = Some 0x52 \<and> byteAt buffer 1 = Some 0x49 then ''webp''
      else if byteAt buffer 0 = Some 0x47 \<and> byteAt buffer 1 = Some 0x49
              \<and> byteAt buffer 2 = Some 0x46 then ''gif''
      else if svgSniff buffer then ''svg''
      else
        (let hintStr = (if truthy_str hint then the hint else []) in
         if jsIncludes hintStr ''png'' then ''png''
         else if jsIncludes hintStr ''jpeg'' \<or> jsIncludes hintStr ''jpg'' then ''jpg''
         else if jsIncludes hintStr ''webp'' then ''webp''
         else if jsIncludes hintStr ''svg'' then ''svg''
         else if jsIncludes hintStr ''gif'' then ''gif''
         else ''png''))"

text \<open>
  What the resolver calls and the sources do not contain: \<^verbatim>\<open>isDataUrl\<close> (validators),
  \<^verbatim>\<open>parseDataUrl\<close> and \<^verbatim>\<open>validateImage\<close> (image-processor), and the platform's
  \<^verbatim>\<open>fetch\<close>, here a function of the URL and the user agent that either rejects or gives
  a response with its \<^verbatim>\<open>ok\<close> flag and the outcome of \<^verbatim>\<open>arrayBuffer()\<close>. A time-out is a
  rejection.
\<close>

record image_response =
  resp_ok :: bool
  resp_arrayBuffer :: "bytes attempt"

record data_url =
  du_buffer :: bytes
  du_mimeType :: "string option"

record resolver_deps =
  isDataUrl :: "string \<Rightarrow> bool"
  parseDataUrl :: "string \<Rightarrow> data_url option attempt"
  validateImage :: "bytes \<Rightarrow> bool attempt"
  fetchImage :: "string \<Rightarrow> string \<Rightarrow> image_response attempt"

text \<open>
  The size check, the validation and the construction of the result (the tail of the
  loop body); a rejection of \<^verbatim>\<open>validateImage\<close> is caught by the loop's handler.
\<close>

definition checkBuffer ::
  "resolver_deps \<Rightarrow> AppConfig \<Rightarrow> OGImageSource \<Rightarrow> bytes \<Rightarrow> string option
     \<Rightarrow> ResolvedAsset option" where
  "checkBuffer d config img buffer mimeType =
     (if length buffer > 0 \<and> length buffer \<le> MAX_IMAGE_SIZE config then
        (case validateImage d buffer of
           Raised \<Rightarrow> None
         | Returned isValid \<Rightarrow>
             if isValid then
               Some \<lparr> ra_data = buffer,
                      ra_format = detectFormat buffer (or_str mimeType (og_type img)),
                      ra_source = og_source img,
                      ra_url = og_url img,
                      ra_isFallback = og_isFallback img \<rparr>
             else None)
      else None)"

text \<open>
  One turn of the loop for one candidate, for a network that answers by a function of the
  URL and the user agent. The last argument and the second component of the result are a
  record, kept by this definition, of the URLs it handed to \<^verbatim>\<open>fetch\<close>; what the calls
  do to the network is the subject of the stateful version further down.
\<close>

definition tryCandidate ::
  "resolver_deps \<Rightarrow> AppConfig \<Rightarrow> OGImageSource \<Rightarrow> string list
     \<Rightarrow> ResolvedAsset option \<times> string list" where
  "tryCandidate d config img fetched =
     (if isDataUrl d (og_url img) then
        (case parseDataUrl d (og_url img) of
           Raised \<Rightarrow> (None, fetched)
         | Returned None \<Rightarrow> (None, fetched)
         | Returned (Some parsed) \<Rightarrow>
             (checkBuffer d config img (du_buffer parsed) (du_mimeType parsed), fetched))
      else
        (let fetched' = fetched @ [og_url img] in
         case fetchImage d (og_url img) (USER_AGENT config) of
           Raised \<Rightarrow> (None, fetched')
         | Returned response \<Rightarrow>
             if \<not> resp_ok response then (None, fetched')
             else (case resp_arrayBuffer response of
                     Raised \<Rightarrow> (None, fetched')
                   | Returned buffer \<Rightarrow>
                       (checkBuffer d config img buffer None, fetched'))))"

fun fetchBestOGImage ::
  "resolver_deps \<Rightarrow> OGImageSource list \<Rightarrow> AppConfig \<Rightarrow> string list
     \<Rightarrow> ResolvedAsset option \<times> string list" where
  "fetchBestOGImage d [] config fetched = (None, fetched)"
| "fetchBestOGImage d (img # images) config fetched =
     (case tryCandidate d config img fetched of
        (Some result, fetched') \<Rightarrow> (Some result, fetched')
      | (None, fetched') \<Rightarrow> fetchBestOGImage d images config fetched')"

text \<open>
  The conditions the specification names for skipping a candidate, each read off the
  outcome of the calls made for it. The payload is what the fetch or the decoding
  delivered, if anything.
\<close>

definition payload :: "resolver_deps \<Rightarrow> AppConfig \<Rightarrow> OGImageSource \<Rightarrow> bytes option" where
  "payload d config img =
     (if isDataUrl d (og_url img) then
        (case parseDataUrl d (og_url img) of
           Returned (Some parsed) \<Rightarrow> Some (du_buffer parsed)
         | _ \<Rightarrow> None)
      else
        (case fetchImage d (og_url img) (USER_AGENT config) of
           Returned response \<Rightarrow>
             (if resp_ok response then
                (case resp_arrayBuffer response of Returned buffer \<Rightarrow> Some buffer | Raised \<Rightarrow> None)
              else None)
         | Raised \<Rightarrow> None))"

definition fetchErrors :: "resolver_deps \<Rightarrow> AppConfig \<Rightarrow> OGImageSource \<Rightarrow> bool" where
  "fetchErrors d config img =
     (\<not> isDataUrl d (og_url img) \<and>
      (case fetchImage d (og_url img) (USER_AGENT config) of
         Raised \<Rightarrow> True
       | Returned response \<Rightarrow> resp_ok response \<and> resp_arrayBuffer response = Raised))"

definition nonSuccessStatus :: "resolver_deps \<Rightarrow> AppConfig \<Rightarrow> OGImageSource \<Rightarrow> bool" where
  "nonSuccessStatus d config img =
     (\<not> isDataUrl d (og_url img) \<and>
      (case fetchImage d (og_url img) (USER_AGENT config) of
         Raised \<Rightarrow> False
       | Returned response \<Rightarrow> \<not> resp_ok response))"

definition zeroLength :: "resolver_deps \<Rightarrow> AppConfig \<Rightarrow> OGImageSource \<Rightarrow> bool" where
  "zeroLength d config img = (payload d config img = Some [])"

definition oversized :: "resolver_deps \<Rightarrow> AppConfig \<Rightarrow> OGImageSource \<Rightarrow> bool" where
  "oversized d config img =
     (case payload d config img of
        None \<Rightarrow> False
      | Some buffer \<Rightarrow> length buffer > MAX_IMAGE_SIZE config)"

definition failsValidation :: "resolver_deps \<Rightarrow> AppConfig \<Rightarrow> OGImageSource \<Rightarrow> bool" where
  "failsValidation d config img =
     (case payload d config img of
        None \<Rightarrow> False
      | Some buffer \<Rightarrow>
          length buffer > 0 \<and> length buffer \<le> MAX_IMAGE_SIZE config
          \<and> validateImage d buffer \<noteq> Returned True)"

definition decodeFails :: "resolver_deps \<Rightarrow> OGImageSource \<Rightarrow> bool" where
  "decodeFails d img =
     (isDataUrl d (og_url img) \<and>
      (case parseDataUrl d (og_url img) of
         Returned (Some parsed) \<Rightarrow> False
       | _ \<Rightarrow> True))"


text \<open>A candidate is skipped when its turn of the loop yields no result.\<close>

definition skipped :: "resolver_deps \<Rightarrow> AppConfig \<Rightarrow> OGImageSource \<Rightarrow> bool" where
  "skipped d config img = (fst (tryCandidate d config img []) = None)"

subsection \<open>The resolver with the network as a state\<close>

text \<open>
  The same loop with the effect of \<^verbatim>\<open>fetch\<close> made explicit. The network is a state \<open>'w\<close>
  of the world, and \<^verbatim>\<open>fetch(url, { headers })\<close> is a transition of it that also delivers the
  response: \<open>net url userAgent w\<close> is the outcome of the call together with the world
  after it. The loop threads the world through its calls; nothing else touches it, since
  \<^verbatim>\<open>isDataUrl\<close>, \<^verbatim>\<open>parseDataUrl\<close> and \<^verbatim>\<open>validateImage\<close> work on values they are given.
  \<open>tryCandidate\<close> and \<open>fetchBestOGImage\<close> above are the results of these functions for a
  network whose answers do not depend on its state.
\<close>

type_synonym 'w network = "string \<Rightarrow> string \<Rightarrow> 'w \<Rightarrow> image_response attempt \<times> 'w"

definition tryCandidateIO ::
  "resolver_deps \<Rightarrow> 'w network \<Rightarrow> AppConfig \<Rightarrow> OGImageSource \<Rightarrow> 'w
     \<Rightarrow> ResolvedAsset option \<times> 'w" where
  "tryCandidateIO d net config img w =
     (if isDataUrl d (og_url img) then
        (case parseDataUrl d (og_url img) of
           Raised \<Rightarrow> (None, w)
         | Returned None \<Rightarrow> (None, w)
         | Returned (Some parsed) \<Rightarrow>
             (checkBuffer d config img (du_buffer parsed) (du_mimeType parsed), w))
      else
        (case net (og_url img) (USER_AGENT config) w of
           (Raised, w') \<Rightarrow> (None, w')
         | (Returned response, w') \<Rightarrow>
             if \<not> resp_ok response then (None, w')
             else (case resp_arrayBuffer response of
                     Raised \<Rightarrow> (None, w')
                   | Returned buffer \<Rightarrow> (checkBuffer d config img buffer None, w'))))"

fun fetchBestOGImageIO ::
  "resolver_deps \<Rightarrow> 'w network \<Rightarrow> OGImageSource list \<Rightarrow> AppConfig \<Rightarrow> 'w
     \<Rightarrow> ResolvedAsset option \<times> 'w" where
  "fetchBestOGImageIO d net [] config w = (None, w)"
| "fetchBestOGImageIO d net (img # images) config w =
     (case tryCandidateIO d net config img w of
        (Some result, w') \<Rightarrow> (Some result, w')
      | (None, w') \<Rightarrow> fetchBestOGImageIO d net images config w')"

text \<open>The candidates the scan reaches: up to and including the first that succeeds.\<close>

fun reached ::
  "resolver_deps \<Rightarrow> 'w network \<Rightarrow> OGImageSource list \<Rightarrow> AppConfig \<Rightarrow> 'w
     \<Rightarrow> OGImageSource list" where
  "reached d net [] config w = []"
| "reached d net (img # images) config w =
     (case tryCandidateIO d net config img w of
        (Some result, w') \<Rightarrow> [img]
      | (None, w') \<Rightarrow> img # reached d net images config w')"

text \<open>The world after one \<^verbatim>\<open>fetch\<close> of the candidate's URL with the configured user agent.\<close>

definition afterFetch :: "'w network \<Rightarrow> AppConfig \<Rightarrow> 'w \<Rightarrow> OGImageSource \<Rightarrow> 'w" where
  "afterFetch net config w img = snd (net (og_url img) (USER_AGENT config) w)"

text \<open>
  A network that answers by a fixed function of the URL and the user agent and whose
  state is the list of the URLs requested from it so far; the network itself extends the
  list at every call.
\<close>

definition loggingNet ::
  "(string \<Rightarrow> string \<Rightarrow> image_response attempt) \<Rightarrow> string list network" where
  "loggingNet answer url userAgent requests = (answer url userAgent, requests @ [url])"

subsection \<open>A sample environment\<close>

text \<open>
  Concrete stand-ins for the missing helpers and for the network, used to run the
  definitions: a PNG data URI that decodes, a data URI that does not, one image URL that
  answers 200 with a PNG, one that answers 404; every other fetch rejects.
\<close>

definition sample_png :: bytes where
  "sample_png = [0x89, 0x50, 0x4E, 0x47, 0x0D, 0x0A, 0x1A, 0x0A]"

definition sample_deps :: resolver_deps where
  "sample_deps =
     \<lparr> isDataUrl = isDataUrl_spec,
       parseDataUrl = (\<lambda>u.
         if u = ''data:image/png;base64,iVBORw0KGgo='' then
           Returned (Some \<lparr> du_buffer = sample_png, du_mimeType = Some ''image/png'' \<rparr>)
         else Returned None),
       validateImage = (\<lambda>b. Returned (startsWith b [0x89, 0x50, 0x4E, 0x47])),
       fetchImage = (\<lambda>u ua.
         if u = ''https://example.com/og.png'' then
           Returned \<lparr> resp_ok = True, resp_arrayBuffer = Returned sample_png \<rparr>
         else if u = ''https://example.com/missing.png'' then
           Returned \<lparr> resp_ok = False, resp_arrayBuffer = Returned [] \<rparr>
         else Raised) \<rparr>"

definition sample_config :: AppConfig where
  "sample_config =
     \<lparr> USER_AGENT = ''FaviconAPI/1.0'', REQUEST_TIMEOUT = 5000,
       MAX_IMAGE_SIZE = 5242880, USE_FALLBACK_API = True \<rparr>"

definition sample_image :: "string \<Rightarrow> OGImageSource" where
  "sample_image u =
     \<lparr> og_url = u, og_width = None, og_height = None, og_alt = None, og_type = None,
       og_source = ''og:image'', og_score = 150, og_isFallback = Some False \<rparr>"

section \<open>Page analyzer (page-analyzer.ts)\<close>

text \<open>
  \<^verbatim>\<open>Array.prototype.sort\<close> with a comparator. ECMAScript requires the sort to be stable,
  and for a consistent comparator every stable sort gives the same list; it is produced
  here by insertion: an element goes in front of the first later element it does not
  compare greater than.
\<close>

fun insertSorted :: "('a \<Rightarrow> 'a \<Rightarrow> int) \<Rightarrow> 'a \<Rightarrow> 'a list \<Rightarrow> 'a list" where
  "insertSorted cmp x [] = [x]"
| "insertSorted cmp x (y # ys) =
     (if cmp x y \<le> 0 then x # y # ys else y # insertSorted cmp x ys)"

fun jsSort :: "('a \<Rightarrow> 'a \<Rightarrow> int) \<Rightarrow> 'a list \<Rightarrow> 'a list" where
  "jsSort cmp [] = []"
| "jsSort cmp (x # xs) = insertSorted cmp x (jsSort cmp xs)"

subsection \<open>The parsed page\<close>

text \<open>
  The document is what the cheerio selectors of the analyzer deliver, in document order:
  the attributes of the elements matching \<^verbatim>\<open>link[rel*="icon"]\<close> and
  \<^verbatim>\<open>meta[property^="og:image"]\<close>, the content of the first \<^verbatim>\<open>twitter:image\<close> and
  \<^verbatim>\<open>twitter:image:alt\<close> metas, the JSON-LD script blocks, and the values the metadata
  extractor reads.
\<close>

record link_element =
  le_href :: "string option"
  le_sizes :: "string option"
  le_type :: "string option"
  le_rel :: "string option"

record meta_element =
  me_property :: "string option"
  me_content :: "string option"

text \<open>
  A JSON-LD block after \<^verbatim>\<open>JSON.parse\<close>. An entry of an \<^verbatim>\<open>image\<close> property is a string,
  or a value whose \<^verbatim>\<open>url\<close>, \<^verbatim>\<open>width\<close> and \<^verbatim>\<open>height\<close> are read (\<open>None\<close> when absent),
  or a value on which the code raises (\<^verbatim>\<open>null\<close>, or a \<^verbatim>\<open>url\<close> that is not a string); the
  exception ends the handling of the block. Dimensions are restricted to JSON integers
  that \<^verbatim>\<open>String\<close> prints in plain decimal, for which \<^verbatim>\<open>parseInt(String(width), 10)\<close> is
  the integer itself; other JSON values in these two fields change the stored dimensions
  only, never the source tag or the flag of a candidate.
\<close>

datatype ld_image = LdString string | LdObject "string option" "int option" "int option" | LdRaises

datatype ld_image_prop = NoImage | OneImage ld_image | ManyImages "ld_image list"

datatype ld_schema = NullSchema | Schema ld_image_prop

datatype ld_block = NoText | BadJson | OneSchema ld_schema | ManySchemas "ld_schema list"

record document =
  doc_iconLinks :: "link_element list"
  doc_ogImageMetas :: "meta_element list"
  doc_twitterImage :: "string option"
  doc_twitterImageAlt :: "string option"
  doc_jsonLd :: "ld_block list"
  doc_ogTitle :: "string option"
  doc_twitterTitle :: "string option"
  doc_titleText :: string
  doc_ogDescription :: "string option"
  doc_twitterDescription :: "string option"
  doc_metaDescription :: "string option"
  doc_ogSiteName :: "string option"

record PageMetadata =
  pm_title :: "string option"
  pm_description :: "string option"
  pm_siteName :: "string option"

record PageAnalysisResult =
  favicons :: "FaviconSource list"
  ogImages :: "OGImageSource list"
  metadata :: PageMetadata

subsection \<open>The environment of the analyzer\<close>

text \<open>
  Beside the helpers of the resolver: \<^verbatim>\<open>new URL(s)\<close> (\<open>None\<close> when it throws), the
  platform's \<^verbatim>\<open>fetch\<close> for the page and for the manifest (functions of the URL and the
  user agent), \<^verbatim>\<open>cheerio.load\<close> followed by the selectors, and \<^verbatim>\<open>encodeURIComponent\<close>.
  In the manifest, \<^verbatim>\<open>icons\<close> is \<open>None\<close> when absent or not an array, and \<^verbatim>\<open>json()\<close>
  raising covers a body that is not a JSON object. An entry of \<^verbatim>\<open>icons\<close> is an object
  whose \<^verbatim>\<open>src\<close>, \<^verbatim>\<open>sizes\<close> and \<^verbatim>\<open>type\<close> are read, or a value on which the loop raises
  (\<^verbatim>\<open>null\<close>, or a truthy \<^verbatim>\<open>src\<close> that is not a string).
\<close>

record parsed_url =
  url_protocol :: string
  url_hostname :: string

record html_response =
  hr_ok :: bool
  hr_status :: nat
  hr_text :: "string attempt"
  hr_url :: string

record manifest_icon =
  mi_src :: "string option"
  mi_sizes :: "string option"
  mi_type :: "string option"

datatype manifest_entry = IconEntry manifest_icon | RaisingEntry

record manifest =
  mf_icons :: "manifest_entry list option"

record manifest_response =
  mr_ok :: bool
  mr_json :: "manifest attempt"

record page_env = resolver_deps +
  newURL :: "string \<Rightarrow> parsed_url option"
  fetchPage :: "string \<Rightarrow> string \<Rightarrow> html_response attempt"
  cheerioLoad :: "string \<Rightarrow> document"
  fetchManifest :: "string \<Rightarrow> string \<Rightarrow> manifest_response attempt"
  encodeURIComponent :: "string \<Rightarrow> string"

definition BROWSER_USER_AGENT :: string where
  "BROWSER_USER_AGENT =
     ''Mozilla/5.0 (Macintosh; Intel Mac OS X 10_15_7) AppleWebKit/537.36 (KHTML, like Gecko) Chrome/131.0.0.0 Safari/537.36''"

subsection \<open>Markup fetcher and metadata extractor\<close>

definition fetchHtml :: "page_env \<Rightarrow> string \<Rightarrow> AppConfig \<Rightarrow> (string \<times> string) attempt" where
  "fetchHtml env url config =
     (let honest =
            (case fetchPage env url (USER_AGENT config) of
               Raised \<Rightarrow> None
             | Returned response \<Rightarrow>
                 if hr_ok response then
                   (case hr_text response of
                      Raised \<Rightarrow> None
                    | Returned html \<Rightarrow> Some (html, hr_url response))
                 else None)
      in case honest of
           Some result \<Rightarrow> Returned result
         | None \<Rightarrow>
             (case fetchPage env url BROWSER_USER_AGENT of
                Raised \<Rightarrow> Raised
              | Returned response \<Rightarrow>
                  if \<not> hr_ok response then Raised
                  else (case hr_text response of
                          Raised \<Rightarrow> Raised
                        | Returned html \<Rightarrow> Returned (html, hr_url response))))"

definition extractMetadata :: "document \<Rightarrow> PageMetadata" where
  "extractMetadata doc =
     \<lparr> pm_title = or_str (or_str (doc_ogTitle doc) (doc_twitterTitle doc))
                     (Some (doc_titleText doc)),
       pm_description = or_str (or_str (doc_ogDescription doc) (doc_twitterDescription doc))
                           (doc_metaDescription doc),
       pm_siteName = doc_ogSiteName doc \<rparr>"

subsection \<open>Favicon extractors\<close>

text \<open>The captured group of \<^verbatim>\<open>/^data:([^;,]+)/\<close>, if the pattern matches.\<close>

definition dataMime :: "string \<Rightarrow> string option" where
  "dataMime href =
     (if startsWith href ''data:'' then
        (let m = takeWhile (\<lambda>c. c \<noteq> CHR '';'' \<and> c \<noteq> CHR '','') (drop 5 href)
         in if m = [] then None else Some m)
      else None)"

text \<open>\<^verbatim>\<open>href.split('.').pop()\<close>: the text after the last dot, or all of it.\<close>

definition lastSegment :: "string \<Rightarrow> string" where
  "lastSegment href = rev (takeWhile (\<lambda>c. c \<noteq> CHR ''.'') (rev href))"

definition linkTagFavicon :: "(string \<Rightarrow> bool) \<Rightarrow> string \<Rightarrow> link_element \<Rightarrow> FaviconSource option" where
  "linkTagFavicon isData baseUrl element =
     (if \<not> truthy_str (le_href element) then None
      else
        (let href = the (le_href element);
             sizes = le_sizes element;
             type = (if truthy_str (le_type element) then the (le_type element) else []);
             rel = (if truthy_str (le_rel element) then the (le_rel element) else []);
             type = (if type \<noteq> [] then type
                     else if isData href then
                       (case dataMime href of Some m \<Rightarrow> m | None \<Rightarrow> type)
                     else lastSegment href);
             sz = parseSizes sizes;
             score = calculateFaviconScore sz (Some type) rel
         in Some \<lparr> fs_url = resolveUrl isData href baseUrl,
                   fs_size = sz,
                   fs_format = Some type,
                   fs_source = ''link-tag'',
                   fs_score = score,
                   fs_isFallback = None \<rparr>))"

definition extractFaviconFromLinkTags ::
  "(string \<Rightarrow> bool) \<Rightarrow> document \<Rightarrow> string \<Rightarrow> FaviconSource list" where
  "extractFaviconFromLinkTags isData doc baseUrl =
     List.map_filter (linkTagFavicon isData baseUrl) (doc_iconLinks doc)"

definition manifestFavicon :: "(string \<Rightarrow> bool) \<Rightarrow> string \<Rightarrow> manifest_icon \<Rightarrow> FaviconSource option" where
  "manifestFavicon isData baseUrl icon =
     (if truthy_str (mi_src icon) then
        Some \<lparr> fs_url = resolveUrl isData (the (mi_src icon)) baseUrl,
               fs_size = parseSizes (mi_sizes icon),
               fs_format = mi_type icon,
               fs_source = ''manifest'',
               fs_score = 40,
               fs_isFallback = None \<rparr>
      else None)"

text \<open>
  The loop over \<^verbatim>\<open>manifest.icons\<close>: an exception ends it, and the candidates pushed before
  stay in the list the function returns.
\<close>

fun manifestIcons :: "(string \<Rightarrow> bool) \<Rightarrow> string \<Rightarrow> manifest_entry list \<Rightarrow> FaviconSource list" where
  "manifestIcons isData baseUrl [] = []"
| "manifestIcons isData baseUrl (RaisingEntry # entries) = []"
| "manifestIcons isData baseUrl (IconEntry icon # entries) =
     (case manifestFavicon isData baseUrl icon of
        None \<Rightarrow> manifestIcons isData baseUrl entries
      | Some candidate \<Rightarrow> candidate # manifestIcons isData baseUrl entries)"

definition extractFaviconFromManifest :: "page_env \<Rightarrow> string \<Rightarrow> AppConfig \<Rightarrow> FaviconSource list" where
  "extractFaviconFromManifest env baseUrl config =
     (case fetchManifest env (baseUrl @ ''/manifest.json'') (USER_AGENT config) of
        Raised \<Rightarrow> []
      | Returned response \<Rightarrow>
          if mr_ok response then
            (case mr_json response of
               Raised \<Rightarrow> []
             | Returned manifest \<Rightarrow>
                 (case mf_icons manifest of
                    None \<Rightarrow> []
                  | Some icons \<Rightarrow> manifestIcons (isDataUrl env) baseUrl icons))
          else [])"

subsection \<open>OG image extractors\<close>

text \<open>The entries the first pass over the \<^verbatim>\<open>og:image\<close> metas collects.\<close>

record raw_og =
  ro_url :: "string option"
  ro_width :: "string option"
  ro_height :: "string option"
  ro_alt :: "string option"
  ro_type :: "string option"

definition collectOgUrl :: "meta_element \<Rightarrow> raw_og option" where
  "collectOgUrl element =
     (if \<not> truthy_str (me_property element) \<or> \<not> truthy_str (me_content element) then None
      else if the (me_property element) = ''og:image''
              \<or> the (me_property element) = ''og:image:url''
              \<or> the (me_property element) = ''og:image:secure_url''
      then Some \<lparr> ro_url = me_content element, ro_width = None, ro_height = None,
                   ro_alt = None, ro_type = None \<rparr>
      else None)"

text \<open>The second pass: every dimension, alt and type meta is written to the first entry.\<close>

definition applyOgMeta :: "raw_og \<Rightarrow> meta_element \<Rightarrow> raw_og" where
  "applyOgMeta currentImage element =
     (if \<not> truthy_str (me_property element) \<or> \<not> truthy_str (me_content element)
      then currentImage
      else if the (me_property element) = ''og:image:width''
      then currentImage \<lparr> ro_width := me_content element \<rparr>
      else if the (me_property element) = ''og:image:height''
      then currentImage \<lparr> ro_height := me_content element \<rparr>
      else if the (me_property element) = ''og:image:alt''
      then currentImage \<lparr> ro_alt := me_content element \<rparr>
      else if the (me_property element) = ''og:image:type''
      then currentImage \<lparr> ro_type := me_content element \<rparr>
      else currentImage)"

definition ogCandidate :: "(string \<Rightarrow> bool) \<Rightarrow> string \<Rightarrow> raw_og \<Rightarrow> OGImageSource option" where
  "ogCandidate isData baseUrl ogImage =
     (if \<not> truthy_str (ro_url ogImage) then None
      else
        (let width = (if truthy_str (ro_width ogImage)
                      then parseInt10 (the (ro_width ogImage)) else None);
             height = (if truthy_str (ro_height ogImage)
                       then parseInt10 (the (ro_height ogImage)) else None)
         in Some \<lparr> og_url = resolveUrl isData (the (ro_url ogImage)) baseUrl,
                   og_width = width,
                   og_height = height,
                   og_alt = ro_alt ogImage,
                   og_type = ro_type ogImage,
                   og_source = ''og:image'',
                   og_score = calculateOGScore width height ''og:image'' (ro_type ogImage),
                   og_isFallback = Some False \<rparr>))"

definition extractOGFromTags :: "(string \<Rightarrow> bool) \<Rightarrow> document \<Rightarrow> string \<Rightarrow> OGImageSource list" where
  "extractOGFromTags isData doc baseUrl =
     (let collected = List.map_filter collectOgUrl (doc_ogImageMetas doc);
          rawImages = (case collected of
                        [] \<Rightarrow> []
                      | first # others \<Rightarrow>
                          foldl applyOgMeta first (doc_ogImageMetas doc) # others)
      in List.map_filter (ogCandidate isData baseUrl) rawImages)"

definition extractOGFromTwitterTags ::
  "(string \<Rightarrow> bool) \<Rightarrow> document \<Rightarrow> string \<Rightarrow> OGImageSource list" where
  "extractOGFromTwitterTags isData doc baseUrl =
     (if truthy_str (doc_twitterImage doc) then
        [\<lparr> og_url = resolveUrl isData (the (doc_twitterImage doc)) baseUrl,
           og_width = None,
           og_height = None,
           og_alt = doc_twitterImageAlt doc,
           og_type = None,
           og_source = ''twitter:image'',
           og_score = calculateOGScore None None ''twitter:image'' None,
           og_isFallback = Some False \<rparr>]
      else [])"

text \<open>
  JSON-LD. The functions return the candidates pushed and whether an exception ended the
  block; the candidates pushed before the exception stay in the list.
\<close>

definition ldCandidate ::
  "(string \<Rightarrow> bool) \<Rightarrow> string \<Rightarrow> string \<Rightarrow> int option \<Rightarrow> int option \<Rightarrow> OGImageSource" where
  "ldCandidate isData baseUrl url width height =
     \<lparr> og_url = resolveUrl isData url baseUrl,
       og_width = (if truthy_int width then width else None),
       og_height = (if truthy_int height then height else None),
       og_alt = None,
       og_type = None,
       og_source = ''schema.org'',
       og_score = calculateOGScore width height ''schema.org'' None,
       og_isFallback = Some False \<rparr>"

fun ldImages :: "(string \<Rightarrow> bool) \<Rightarrow> string \<Rightarrow> ld_image list \<Rightarrow> OGImageSource list \<times> bool" where
  "ldImages isData baseUrl [] = ([], False)"
| "ldImages isData baseUrl (LdRaises # imageUrls) = ([], True)"
| "ldImages isData baseUrl (LdString url # imageUrls) =
     (let (images, raised) = ldImages isData baseUrl imageUrls
      in if url \<noteq> [] then (ldCandidate isData baseUrl url None None # images, raised)
         else (images, raised))"
| "ldImages isData baseUrl (LdObject url width height # imageUrls) =
     (let (images, raised) = ldImages isData baseUrl imageUrls
      in if truthy_str url then (ldCandidate isData baseUrl (the url) width height # images, raised)
         else (images, raised))"

text \<open>
  \<^verbatim>\<open>schemaItem.image\<close> when truthy, as the list the inner loop runs over; an empty string
  is falsy, an empty array is not.
\<close>

fun imageUrls :: "ld_image_prop \<Rightarrow> ld_image list" where
  "imageUrls NoImage = []"
| "imageUrls (OneImage (LdString url)) = (if url = [] then [] else [LdString url])"
| "imageUrls (OneImage entry) = [entry]"
| "imageUrls (ManyImages entries) = entries"

fun ldSchemas :: "(string \<Rightarrow> bool) \<Rightarrow> string \<Rightarrow> ld_schema list \<Rightarrow> OGImageSource list \<times> bool" where
  "ldSchemas isData baseUrl [] = ([], False)"
| "ldSchemas isData baseUrl (NullSchema # schemas) = ([], True)"
| "ldSchemas isData baseUrl (Schema prop # schemas) =
     (let (images, raised) = ldImages isData baseUrl (imageUrls prop)
      in if raised then (images, True)
         else (let (later, raised') = ldSchemas isData baseUrl schemas
               in (images @ later, raised')))"

fun ldBlock :: "(string \<Rightarrow> bool) \<Rightarrow> string \<Rightarrow> ld_block \<Rightarrow> OGImageSource list" where
  "ldBlock isData baseUrl NoText = []"
| "ldBlock isData baseUrl BadJson = []"
| "ldBlock isData baseUrl (OneSchema schema) = fst (ldSchemas isData baseUrl [schema])"
| "ldBlock isData baseUrl (ManySchemas schemas) = fst (ldSchemas isData baseUrl schemas)"

definition extractOGFromJsonLd :: "(string \<Rightarrow> bool) \<Rightarrow> document \<Rightarrow> string \<Rightarrow> OGImageSource list" where
  "extractOGFromJsonLd isData doc baseUrl = concat (map (ldBlock isData baseUrl) (doc_jsonLd doc))"

subsection \<open>analyzePage\<close>

text \<open>\<^verbatim>\<open>`${finalParsedUrl.protocol}//${finalParsedUrl.hostname}`\<close>\<close>

definition baseUrlOf :: "parsed_url \<Rightarrow> string" where
  "baseUrlOf parsedUrl = url_protocol parsedUrl @ ''//'' @ url_hostname parsedUrl"

text \<open>The two pushes under the comment \<^verbatim>\<open>Add common fallback locations\<close>.\<close>

definition staticFallbacks :: "string \<Rightarrow> FaviconSource list" where
  "staticFallbacks finalBaseUrl =
     [\<lparr> fs_url = finalBaseUrl @ ''/favicon.ico'', fs_size = None, fs_format = None,
         fs_source = ''fallback'', fs_score = 10, fs_isFallback = None \<rparr>,
      \<lparr> fs_url = finalBaseUrl @ ''/apple-touch-icon.png'', fs_size = None, fs_format = None,
         fs_source = ''fallback'', fs_score = 20, fs_isFallback = None \<rparr>]"

text \<open>
  The \<^verbatim>\<open>try\<close> block. Only \<^verbatim>\<open>fetchHtml\<close> and \<^verbatim>\<open>new URL(finalUrl)\<close> can raise in it, and both
  come before the first push, so its outcome is either everything or the empty lists the
  handler leaves.
\<close>

definition noResults :: "FaviconSource list \<times> OGImageSource list \<times> PageMetadata" where
  "noResults = ([], [], \<lparr> pm_title = None, pm_description = None, pm_siteName = None \<rparr>)"

definition analyzeTry ::
  "page_env \<Rightarrow> string \<Rightarrow> AppConfig
     \<Rightarrow> FaviconSource list \<times> OGImageSource list \<times> PageMetadata" where
  "analyzeTry env targetUrl config =
     (case fetchHtml env targetUrl config of
        Raised \<Rightarrow> noResults
      | Returned (html, finalUrl) \<Rightarrow>
          (case newURL env finalUrl of
             None \<Rightarrow> noResults
           | Some finalParsedUrl \<Rightarrow>
               (let finalBaseUrl = baseUrlOf finalParsedUrl;
                    doc = cheerioLoad env html;
                    faviconList =
                      extractFaviconFromLinkTags (isDataUrl env) doc finalBaseUrl
                      @ staticFallbacks finalBaseUrl
                      @ extractFaviconFromManifest env finalBaseUrl config;
                    ogImageList =
                      extractOGFromTags (isDataUrl env) doc finalBaseUrl
                      @ extractOGFromTwitterTags (isDataUrl env) doc finalBaseUrl
                      @ extractOGFromJsonLd (isDataUrl env) doc finalBaseUrl
                in (faviconList, ogImageList, extractMetadata doc))))"

text \<open>The candidate for Google's favicon API; \<^verbatim>\<open>new URL\<close> here is outside any handler.\<close>

definition fallbackApiCandidate ::
  "page_env \<Rightarrow> string \<Rightarrow> nat option \<Rightarrow> FaviconSource attempt" where
  "fallbackApiCandidate env url sz =
     (let trimmedDomain = trim url
      in case newURL env (if startsWith trimmedDomain ''http'' then trimmedDomain
                          else ''https://'' @ trimmedDomain) of
           None \<Rightarrow> Raised
         | Some parsedUrl \<Rightarrow>
             (let formattedDomain = ''https://'' @ url_hostname parsedUrl
              in Returned
                   \<lparr> fs_url = ''https://www.google.com/s2/favicons?domain=''
                               @ encodeURIComponent env formattedDomain @ ''&sz=''
                               @ showNat (if truthy_nat sz then the sz else 64),
                     fs_size = None,
                     fs_format = None,
                     fs_source = ''fallback-api'',
                     fs_score = 1,
                     fs_isFallback = Some True \<rparr>))"

text \<open>The lists as they stand just before the \<^verbatim>\<open>return\<close> statement sorts them.\<close>

definition targetUrlOf :: "string \<Rightarrow> string" where
  "targetUrlOf url = (if startsWith url ''http'' then url else ''https://'' @ url)"

definition collectCandidates ::
  "page_env \<Rightarrow> string \<Rightarrow> AppConfig \<Rightarrow> nat option
     \<Rightarrow> (FaviconSource list \<times> OGImageSource list \<times> PageMetadata) attempt" where
  "collectCandidates env url config sz =
     (let targetUrl = targetUrlOf url;
          (faviconList, ogImageList, pageMetadata) = analyzeTry env targetUrl config
      in if USE_FALLBACK_API config then
           (case fallbackApiCandidate env url sz of
              Raised \<Rightarrow> Raised
            | Returned candidate \<Rightarrow>
                Returned (faviconList @ [candidate], ogImageList, pageMetadata))
         else Returned (faviconList, ogImageList, pageMetadata))"

definition analyzePage ::
  "page_env \<Rightarrow> string \<Rightarrow> AppConfig \<Rightarrow> nat option \<Rightarrow> PageAnalysisResult attempt" where
  "analyzePage env url config sz =
     (case collectCandidates env url config sz of
        Raised \<Rightarrow> Raised
      | Returned (faviconList, ogImageList, pageMetadata) \<Rightarrow>
          Returned
            \<lparr> favicons = jsSort (\<lambda>a b. fs_score b - fs_score a) faviconList,
              ogImages = jsSort (\<lambda>a b. og_score b - og_score a) ogImageList,
              metadata = pageMetadata \<rparr>)"

subsection \<open>A sample page\<close>

text \<open>
  A stand-in for \<^verbatim>\<open>new URL\<close> that accepts \<^verbatim>\<open>http://\<close> and \<^verbatim>\<open>https://\<close> followed by a
  non-empty host without spaces, and a page at \<^verbatim>\<open>https://example.com\<close> that redirects
  to \<^verbatim>\<open>https://www.example.com/\<close>, declares two icons of 256 and 512 pixels, an OG image
  with dimensions, a Twitter image and a JSON-LD image, and has no manifest.
\<close>

definition sample_host :: "string \<Rightarrow> string \<Rightarrow> parsed_url option" where
  "sample_host protocol rest =
     (let host = takeWhile (\<lambda>c. c \<noteq> CHR ''/'' \<and> c \<noteq> CHR ''?'' \<and> c \<noteq> CHR ''#'') rest
      in if host = [] \<or> CHR '' '' \<in> set host then None
         else Some \<lparr> url_protocol = protocol, url_hostname = host \<rparr>)"

definition sample_newURL :: "string \<Rightarrow> parsed_url option" where
  "sample_newURL s =
     (if startsWith s ''https://'' then sample_host ''https:'' (drop 8 s)
      else if startsWith s ''http://'' then sample_host ''http:'' (drop 7 s)
      else None)"

definition sample_document :: document where
  "sample_document =
     \<lparr> doc_iconLinks =
         [\<lparr> le_href = Some ''/icon-256.png'', le_sizes = Some ''256x256'',
             le_type = Some ''image/png'', le_rel = Some ''icon'' \<rparr>,
          \<lparr> le_href = Some ''/icon-512.png'', le_sizes = Some ''512x512'',
             le_type = Some ''image/png'', le_rel = Some ''icon'' \<rparr>],
       doc_ogImageMetas =
         [\<lparr> me_property = Some ''og:image'', me_content = Some ''/og.png'' \<rparr>,
          \<lparr> me_property = Some ''og:image:width'', me_content = Some ''1200'' \<rparr>,
          \<lparr> me_property = Some ''og:image:height'', me_content = Some ''630'' \<rparr>],
       doc_twitterImage = Some ''https://cdn.example.com/card.png'',
       doc_twitterImageAlt = None,
       doc_jsonLd = [OneSchema (Schema (OneImage (LdString ''//cdn.example.com/ld.png'')))],
       doc_ogTitle = Some ''Example'',
       doc_twitterTitle = None,
       doc_titleText = ''Example Domain'',
       doc_ogDescription = None,
       doc_twitterDescription = None,
       doc_metaDescription = None,
       doc_ogSiteName = None \<rparr>"

definition sample_env :: page_env where
  "sample_env =
     resolver_deps.extend sample_deps
       (page_env.fields sample_newURL
          (\<lambda>u ua. if u = ''https://example.com'' then
                     Returned \<lparr> hr_ok = True, hr_status = 200, hr_text = Returned ''<html>'',
                                hr_url = ''https://www.example.com/'' \<rparr>
                   else Raised)
          (\<lambda>html. sample_document)
          (\<lambda>u ua. Returned \<lparr> mr_ok = False, mr_json = Raised \<rparr>)
          (\<lambda>s. concat (map (\<lambda>c. if c = CHR '':'' then ''%3A''
                                  else if c = CHR ''/'' then ''%2F'' else [c]) s)))"

subsection \<open>A sample manifest\<close>

text \<open>
  The sample page again, now with a manifest that lists the same icon twice, once
  declared as 256 and once as 512 pixels wide.
\<close>

definition sample_manifest_env :: page_env where
  "sample_manifest_env =
     sample_env \<lparr> fetchManifest := (\<lambda>u ua.
       Returned \<lparr> mr_ok = True,
                  mr_json = Returned \<lparr> mf_icons = Some
                    [IconEntry \<lparr> mi_src = Some ''/icon.png'', mi_sizes = Some ''256x256'',
                                 mi_type = Some ''image/png'' \<rparr>,
                     IconEntry \<lparr> mi_src = Some ''/icon.png'', mi_sizes = Some ''512x512'',
                                 mi_type = Some ''image/png'' \<rparr>] \<rparr> \<rparr>) \<rparr>"

definition sample_link :: "string \<Rightarrow> link_element" where
  "sample_link sizes =
     \<lparr> le_href = Some ''/icon.png'', le_sizes = Some sizes, le_type = Some ''image/png'',
       le_rel = Some ''icon'' \<rparr>"

section \<open>Fallback handler (index.ts)\<close>

text \<open>
  \<^verbatim>\<open>handleFallback\<close> is what both request handlers call when the primary pipeline gave no
  asset. \<^verbatim>\<open>fetchCustomDefault\<close> and \<^verbatim>\<open>getCachedFallback\<close> (fallback-image),
  \<^verbatim>\<open>processImage\<close> (image-processor) and the URL class of the platform are not among the
  sources and are parameters: \<open>urlOrigin\<close> is \<^verbatim>\<open>new URL(u).origin\<close>, and \<open>apiUrlString\<close>
  is \<^verbatim>\<open>new URL(s)\<close>, the optional \<^verbatim>\<open>searchParams.set('default', v)\<close> and \<^verbatim>\<open>toString()\<close>.
  Response headers come from the header module and are left out.
\<close>

datatype OutputFormat = Image | Json

record fallback_image =
  fb_buffer :: bytes
  fb_format :: string
  fb_sourceUrl :: string
  fb_width :: nat
  fb_height :: nat

record ProcessedImage =
  pi_data :: bytes
  pi_format :: string
  pi_width :: nat
  pi_height :: nat
  pi_bytes :: nat

record ImageInfo =
  ii_url :: string
  ii_sourceUrl :: string
  ii_width :: nat
  ii_height :: nat
  ii_format :: string
  ii_bytes :: nat
  ii_source :: string
  ii_isFallback :: "bool option"

record FaviconResult =
  fr_favicon :: ImageInfo
  fr_ogImage :: "ImageInfo option"
  fr_metadata :: PageMetadata

text \<open>
  \<^verbatim>\<open>c.json({ error }, status)\<close>, \<^verbatim>\<open>c.json(result, 200)\<close> and
  \<^verbatim>\<open>c.body(bytes, 200, { 'Content-Type' })\<close>.
\<close>

datatype http_response =
  JsonError nat string
| JsonBody nat FaviconResult
| BinaryBody nat bytes string

record request_ctx =
  req_url :: string
  req_param_url :: "string option"

record fallback_deps =
  fetchCustomDefault :: "string \<Rightarrow> AppConfig \<Rightarrow> fallback_image attempt"
  getCachedFallback :: "fallback_image attempt"
  processImage :: "bytes \<Rightarrow> nat option \<Rightarrow> string option \<Rightarrow> ProcessedImage attempt"
  urlOrigin :: "string \<Rightarrow> string attempt"
  apiUrlString :: "string \<Rightarrow> string option \<Rightarrow> string attempt"

definition defaultImageFailed :: http_response where
  "defaultImageFailed = JsonError 500 ''Failed to fetch default image''"

definition handleFallback ::
  "fallback_deps \<Rightarrow> request_ctx \<Rightarrow> AppConfig \<Rightarrow> OutputFormat \<Rightarrow> string option
     \<Rightarrow> nat option \<Rightarrow> string option \<Rightarrow> http_response" where
  "handleFallback d c config response defaultImage sz format =
     (case (if truthy_str defaultImage
            then fetchCustomDefault d (the defaultImage) config
            else getCachedFallback d) of
        Raised \<Rightarrow> defaultImageFailed
      | Returned chosen \<Rightarrow>
          (case (if truthy_nat sz \<or> truthy_str format then
                   (case processImage d (fb_buffer chosen) sz format of
                      Raised \<Rightarrow> Raised
                    | Returned processed \<Rightarrow>
                        Returned (pi_data processed, pi_format processed,
                                  pi_width processed, pi_height processed))
                 else Returned (fb_buffer chosen, fb_format chosen,
                                fb_width chosen, fb_height chosen)) of
             Raised \<Rightarrow> defaultImageFailed
           | Returned (buffer, imageFormat, width, height) \<Rightarrow>
               if response = Json then
                 (case urlOrigin d (req_url c) of
                    Raised \<Rightarrow> defaultImageFailed
                  | Returned origin \<Rightarrow>
                      (case apiUrlString d
                              (origin @ ''/'' @ (if truthy_str (req_param_url c)
                                                 then the (req_param_url c) else []))
                              (if truthy_str defaultImage then defaultImage else None) of
                         Raised \<Rightarrow> defaultImageFailed
                       | Returned apiUrl \<Rightarrow>
                           JsonBody 200
                             \<lparr> fr_favicon =
                                 \<lparr> ii_url = apiUrl,
                                   ii_sourceUrl = fb_sourceUrl chosen,
                                   ii_width = width,
                                   ii_height = height,
                                   ii_format = imageFormat,
                                   ii_bytes = length buffer,
                                   ii_source = ''default'',
                                   ii_isFallback = Some True \<rparr>,
                               fr_ogImage = None,
                               fr_metadata = \<lparr> pm_title = None, pm_description = None,
                                                pm_siteName = None \<rparr> \<rparr>))
               else BinaryBody 200 buffer
                      (if imageFormat = ''svg'' then ''image/svg+xml'' else ''image/png'')))"

subsection \<open>A sample fallback environment\<close>

text \<open>
  The caller's default image cannot be fetched; the process-wide cached default is an
  SVG of four bytes.
\<close>

definition sample_cached :: fallback_image where
  "sample_cached =
     \<lparr> fb_buffer = [0x3C, 0x73, 0x76, 0x67], fb_format = ''svg'',
       fb_sourceUrl = ''default'', fb_width = 64, fb_height = 64 \<rparr>"

definition sample_fallback_deps :: fallback_deps where
  "sample_fallback_deps =
     \<lparr> fetchCustomDefault = (\<lambda>u config. Raised),
       getCachedFallback = Returned sample_cached,
       processImage = (\<lambda>b sz format. Raised),
       urlOrigin = (\<lambda>u. Returned ''http://localhost:3000''),
       apiUrlString = (\<lambda>s dflt. Returned s) \<rparr>"

definition sample_ctx :: request_ctx where
  "sample_ctx = \<lparr> req_url = ''http://localhost:3000/down.example.com'',
                  req_param_url = Some ''down.example.com'' \<rparr>"

section \<open>Properties\<close>

subsection \<open>Scoring\<close>

lemma calculateFaviconScore_size:
  "calculateFaviconScore (Some 256) type rel < calculateFaviconScore (Some 512) type rel
   \<and> (\<forall>a b. a \<le> b \<longrightarrow>
          calculateFaviconScore (Some a) type rel \<le> calculateFaviconScore (Some b) type rel)"
  by (simp add: calculateFaviconScore_def truthy_nat_def Let_def)

subsection \<open>URL resolver\<close>

text \<open>
  C7 as stated fails: a reference that carries a scheme other than http(s) is not passed
  through. With data URIs recognised by their prefix, \<^verbatim>\<open>ftp://cdn.example.com/icon.png\<close>
  resolved against \<^verbatim>\<open>https://example.com\<close> is prefixed with the base origin.
\<close>

theorem resolveUrl_scheme_counterexample:
  "resolveUrl isDataUrl_spec ''ftp://cdn.example.com/icon.png'' ''https://example.com''
     = ''https://example.com/ftp://cdn.example.com/icon.png''
   \<and> resolveUrl isDataUrl_spec ''ftp://cdn.example.com/icon.png'' ''https://example.com''
     \<noteq> ''ftp://cdn.example.com/icon.png''"
  by (simp add: resolveUrl_def isDataUrl_spec_def startsWith_def)

text \<open>
  C7, amended. Whatever \<^verbatim>\<open>isDataUrl\<close> recognises passes through unchanged; so does every
  reference that starts with the four characters \<^verbatim>\<open>http\<close>; a reference starting with
  \<^verbatim>\<open>//\<close> is prefixed with \<^verbatim>\<open>https:\<close>; one starting with \<^verbatim>\<open>/\<close> is prefixed with the
  base origin; every other reference, one with a scheme other than http(s) included, is
  prefixed with the base origin and a single \<^verbatim>\<open>/\<close>.
\<close>

theorem resolveUrl_cases:
  "(isData url \<or> startsWith url ''http'' \<longrightarrow> resolveUrl isData url baseUrl = url)
   \<and> (\<not> isData url \<and> \<not> startsWith url ''http'' \<and> startsWith url ''//''
        \<longrightarrow> resolveUrl isData url baseUrl = ''https:'' @ url)
   \<and> (\<not> isData url \<and> \<not> startsWith url ''http'' \<and> \<not> startsWith url ''//''
        \<and> startsWith url ''/'' \<longrightarrow> resolveUrl isData url baseUrl = baseUrl @ url)
   \<and> (\<not> isData url \<and> \<not> startsWith url ''http'' \<and> \<not> startsWith url ''//''
        \<and> \<not> startsWith url ''/'' \<longrightarrow> resolveUrl isData url baseUrl = baseUrl @ ''/'' @ url)"
  by (simp add: resolveUrl_def)

theorem resolveUrl_cases_witness:
  "resolveUrl isDataUrl_spec ''data:image/png;base64,iVBORw=='' ''https://example.com''
     = ''data:image/png;base64,iVBORw==''
   \<and> resolveUrl isDataUrl_spec ''https://cdn.example.com/a.png'' ''https://example.com''
     = ''https://cdn.example.com/a.png''
   \<and> resolveUrl isDataUrl_spec ''//cdn.example.com/a.png'' ''https://example.com''
     = ''https://cdn.example.com/a.png''
   \<and> resolveUrl isDataUrl_spec ''/img/a.png'' ''https://example.com''
     = ''https://example.com/img/a.png''
   \<and> resolveUrl isDataUrl_spec ''img/a.png'' ''https://example.com''
     = ''https://example.com/img/a.png''"
  using resolveUrl_cases [of isDataUrl_spec "''data:image/png;base64,iVBORw==''" "''https://example.com''"]
    resolveUrl_cases [of isDataUrl_spec "''https://cdn.example.com/a.png''" "''https://example.com''"]
    resolveUrl_cases [of isDataUrl_spec "''//cdn.example.com/a.png''" "''https://example.com''"]
    resolveUrl_cases [of isDataUrl_spec "''/img/a.png''" "''https://example.com''"]
    resolveUrl_cases [of isDataUrl_spec "''img/a.png''" "''https://example.com''"]
  by (simp add: isDataUrl_spec_def startsWith_def)

subsection \<open>Format detection\<close>







subsection \<open>Candidate resolver\<close>

lemma tryCandidate_fst_log:
  "fst (tryCandidate d config img fetched) = fst (tryCandidate d config img [])"
  by (simp add: tryCandidate_def Let_def split: attempt.splits option.splits)

lemma skipped_iff:
  "skipped d config img \<longleftrightarrow>
     fetchErrors d config img \<or> nonSuccessStatus d config img \<or> zeroLength d config img
     \<or> oversized d config img \<or> failsValidation d config img \<or> decodeFails d img"
  unfolding skipped_def tryCandidate_def fetchErrors_def nonSuccessStatus_def zeroLength_def
    oversized_def failsValidation_def decodeFails_def payload_def checkBuffer_def Let_def
  by (auto split: attempt.splits option.splits)

lemma fetchBest_None:
  "fst (fetchBestOGImage d images config fetched) = None \<longleftrightarrow> (\<forall>img \<in> set images. skipped d config img)"
proof (induction images arbitrary: fetched)
  case Nil
  then show ?case by simp
next
  case (Cons img images)
  show ?case
  proof (cases "tryCandidate d config img fetched")
    case (Pair r f)
    have eq: "fst (tryCandidate d config img []) = r"
      using Pair tryCandidate_fst_log [of d config img fetched] by simp
    show ?thesis
    proof (cases r)
      case None
      then have "skipped d config img" using eq by (simp add: skipped_def)
      with None Pair Cons.IH [of f] show ?thesis by simp
    next
      case (Some a)
      then have "\<not> skipped d config img" using eq by (simp add: skipped_def)
      with Some Pair show ?thesis by simp
    qed
  qed
qed

lemma fetchBest_Some:
  "fst (fetchBestOGImage d images config fetched) = Some r \<Longrightarrow>
     \<exists>pre img post. images = pre @ img # post \<and> (\<forall>x \<in> set pre. skipped d config x)
        \<and> fst (tryCandidate d config img []) = Some r"
proof (induction images arbitrary: fetched)
  case Nil
  then show ?case by simp
next
  case (Cons img images)
  show ?case
  proof (cases "tryCandidate d config img fetched")
    case (Pair r' f)
    have eq: "r' = fst (tryCandidate d config img [])"
      using Pair tryCandidate_fst_log [of d config img fetched] by simp
    show ?thesis
    proof (cases r')
      case None
      with Pair Cons.prems have "fst (fetchBestOGImage d images config f) = Some r" by simp
      from Cons.IH [OF this] obtain pre x post where
        "images = pre @ x # post" "\<forall>y \<in> set pre. skipped d config y"
        "fst (tryCandidate d config x []) = Some r" by blast
      moreover have "skipped d config img" using None eq by (simp add: skipped_def)
      ultimately have "img # images = (img # pre) @ x # post \<and> (\<forall>y \<in> set (img # pre). skipped d config y)
         \<and> fst (tryCandidate d config x []) = Some r" by simp
      then show ?thesis by blast
    next
      case (Some a)
      with Pair Cons.prems have "a = r" by simp
      with Some eq have "img # images = [] @ img # images \<and> (\<forall>y \<in> set []. skipped d config y)
         \<and> fst (tryCandidate d config img []) = Some r" by simp
      then show ?thesis by blast
    qed
  qed
qed

lemma tryCandidate_Some_fields:
  "fst (tryCandidate d config img fetched) = Some r \<Longrightarrow>
     ra_url r = og_url img \<and> ra_source r = og_source img
     \<and> ra_isFallback r = og_isFallback img"
  by (auto simp: tryCandidate_def checkBuffer_def Let_def
      split: attempt.splits option.splits if_splits)

text \<open>
  C4 as stated fails: the five conditions it lists are not the only reasons for a skip. A
  data-URI candidate whose decoding yields nothing is skipped although no fetch was made
  and no payload was ever checked.
\<close>

theorem skip_conditions_counterexample:
  "skipped sample_deps sample_config (sample_image ''data:,'')
   \<and> \<not> fetchErrors sample_deps sample_config (sample_image ''data:,'')
   \<and> \<not> nonSuccessStatus sample_deps sample_config (sample_image ''data:,'')
   \<and> \<not> zeroLength sample_deps sample_config (sample_image ''data:,'')
   \<and> \<not> oversized sample_deps sample_config (sample_image ''data:,'')
   \<and> \<not> failsValidation sample_deps sample_config (sample_image ''data:,'')
   \<and> fst (fetchBestOGImage sample_deps [sample_image ''data:,''] sample_config []) = None"
  by (simp add: skipped_def tryCandidate_def fetchErrors_def nonSuccessStatus_def
      zeroLength_def oversized_def failsValidation_def payload_def sample_deps_def
      sample_image_def isDataUrl_spec_def startsWith_def)

text \<open>
  C4, amended. The resolver scans the list in order. A candidate is skipped exactly when
  its fetch errors, answers with a non-2xx status, delivers a zero-length payload,
  delivers a payload larger than \<^verbatim>\<open>MAX_IMAGE_SIZE\<close>, fails image validation, or, for a
  data URI, cannot be decoded. The result is that of the first candidate that is not
  skipped, with every candidate before it skipped; it is \<open>None\<close> (no result, never an
  error) exactly when every candidate is skipped.
\<close>

theorem fetchBestOGImage_first_success:
  "(skipped d config img \<longleftrightarrow>
      fetchErrors d config img \<or> nonSuccessStatus d config img \<or> zeroLength d config img
      \<or> oversized d config img \<or> failsValidation d config img \<or> decodeFails d img)
   \<and> (fst (fetchBestOGImage d images config fetched) = None
        \<longleftrightarrow> (\<forall>x \<in> set images. skipped d config x))
   \<and> (\<forall>r. fst (fetchBestOGImage d images config fetched) = Some r \<longrightarrow>
          (\<exists>pre x post. images = pre @ x # post \<and> (\<forall>y \<in> set pre. skipped d config y)
             \<and> \<not> skipped d config x \<and> fst (tryCandidate d config x []) = Some r
             \<and> ra_url r = og_url x \<and> ra_source r = og_source x))"
proof -
  have "\<exists>pre x post. images = pre @ x # post \<and> (\<forall>y \<in> set pre. skipped d config y)
             \<and> \<not> skipped d config x \<and> fst (tryCandidate d config x []) = Some r
             \<and> ra_url r = og_url x \<and> ra_source r = og_source x"
    if "fst (fetchBestOGImage d images config fetched) = Some r" for r
  proof -
    from fetchBest_Some [OF that] obtain pre x post where
      p: "images = pre @ x # post" "\<forall>y \<in> set pre. skipped d config y"
        "fst (tryCandidate d config x []) = Some r" by blast
    from p(3) have "\<not> skipped d config x" by (simp add: skipped_def)
    with p tryCandidate_Some_fields [OF p(3)] show ?thesis by blast
  qed
  with skipped_iff [of d config img] fetchBest_None [of d images config fetched]
  show ?thesis by blast
qed

theorem fetchBestOGImage_first_success_witness:
  "decodeFails sample_deps (sample_image ''data:,'')
   \<and> nonSuccessStatus sample_deps sample_config (sample_image ''https://example.com/missing.png'')
   \<and> fetchErrors sample_deps sample_config (sample_image ''https://example.com/down.png'')
   \<and> fst (fetchBestOGImage sample_deps
         [sample_image ''data:,'', sample_image ''https://example.com/missing.png'',
          sample_image ''https://example.com/down.png''] sample_config []) = None"
proof -
  have a: "decodeFails sample_deps (sample_image ''data:,'')"
    by (simp add: decodeFails_def sample_deps_def sample_image_def isDataUrl_spec_def
        startsWith_def)
  have b: "nonSuccessStatus sample_deps sample_config
             (sample_image ''https://example.com/missing.png'')"
    by (simp add: nonSuccessStatus_def sample_deps_def sample_image_def isDataUrl_spec_def
        startsWith_def)
  have c: "fetchErrors sample_deps sample_config (sample_image ''https://example.com/down.png'')"
    by (simp add: fetchErrors_def sample_deps_def sample_image_def isDataUrl_spec_def
        startsWith_def)
  note t = fetchBestOGImage_first_success
  from a t [THEN conjunct1] have sa: "skipped sample_deps sample_config (sample_image ''data:,'')"
    by blast
  from b t [THEN conjunct1] have sb: "skipped sample_deps sample_config
      (sample_image ''https://example.com/missing.png'')"
    by blast
  from c t [THEN conjunct1] have sc: "skipped sample_deps sample_config
      (sample_image ''https://example.com/down.png'')"
    by blast
  from sa sb sc have "\<forall>x \<in> set [sample_image ''data:,'',
      sample_image ''https://example.com/missing.png'',
      sample_image ''https://example.com/down.png'']. skipped sample_deps sample_config x"
    by simp
  with t [THEN conjunct2, THEN conjunct1] have "fst (fetchBestOGImage sample_deps
         [sample_image ''data:,'', sample_image ''https://example.com/missing.png'',
          sample_image ''https://example.com/down.png''] sample_config []) = None"
    by blast
  with a b c show ?thesis by blast
qed

paragraph \<open>The network\<close>

lemma tryCandidateIO_world:
  "snd (tryCandidateIO d net config img w)
     = (if isDataUrl d (og_url img) then w else afterFetch net config w img)"
proof (cases "isDataUrl d (og_url img)")
  case True
  then show ?thesis
    by (simp add: tryCandidateIO_def split: attempt.splits option.splits)
next
  case False
  obtain a w' where n: "net (og_url img) (USER_AGENT config) w = (a, w')"
    by (cases "net (og_url img) (USER_AGENT config) w")
  show ?thesis
  proof (cases a)
    case Raised
    with False n show ?thesis by (simp add: tryCandidateIO_def afterFetch_def)
  next
    case (Returned response)
    with False n show ?thesis
      by (cases "resp_ok response"; cases "resp_arrayBuffer response")
        (simp_all add: tryCandidateIO_def afterFetch_def)
  qed
qed

lemma tryCandidateIO_result:
  assumes "\<And>u ua w. fst (net u ua w) = fetchImage d u ua"
  shows "fst (tryCandidateIO d net config img w) = fst (tryCandidate d config img fetched)"
proof (cases "isDataUrl d (og_url img)")
  case True
  then show ?thesis
    by (simp add: tryCandidateIO_def tryCandidate_def split: attempt.splits option.splits)
next
  case False
  obtain a w' where n: "net (og_url img) (USER_AGENT config) w = (a, w')"
    by (cases "net (og_url img) (USER_AGENT config) w")
  with assms [of "og_url img" "USER_AGENT config" w]
  have f: "fetchImage d (og_url img) (USER_AGENT config) = a" by simp
  show ?thesis
  proof (cases a)
    case Raised
    with False n f show ?thesis by (simp add: tryCandidateIO_def tryCandidate_def)
  next
    case (Returned response)
    with False n f show ?thesis
      by (cases "resp_ok response"; cases "resp_arrayBuffer response")
        (simp_all add: tryCandidateIO_def tryCandidate_def)
  qed
qed

lemma fetchBestOGImageIO_result:
  assumes "\<And>u ua w. fst (net u ua w) = fetchImage d u ua"
  shows "fst (fetchBestOGImageIO d net images config w)
           = fst (fetchBestOGImage d images config fetched)"
proof (induction images arbitrary: w fetched)
  case Nil
  then show ?case by simp
next
  case (Cons img images)
  obtain r w' where io: "tryCandidateIO d net config img w = (r, w')"
    by (cases "tryCandidateIO d net config img w")
  obtain r' f' where pure: "tryCandidate d config img fetched = (r', f')"
    by (cases "tryCandidate d config img fetched")
  from tryCandidateIO_result [of net d config img w fetched, OF assms] io pure
  have "r = r'" by simp
  with io pure Cons.IH [of w' f'] show ?case by (cases r') simp_all
qed

lemma fetchBestOGImageIO_world:
  "snd (fetchBestOGImageIO d net images config w)
     = foldl (afterFetch net config) w
         (filter (\<lambda>x. \<not> isDataUrl d (og_url x)) (reached d net images config w))"
proof (induction images arbitrary: w)
  case Nil
  then show ?case by simp
next
  case (Cons img images)
  obtain r w' where io: "tryCandidateIO d net config img w = (r, w')"
    by (cases "tryCandidateIO d net config img w")
  with tryCandidateIO_world [of d net config img w]
  have w': "w' = (if isDataUrl d (og_url img) then w else afterFetch net config w img)"
    by simp
  show ?case
  proof (cases r)
    case None
    with io w' Cons.IH [of w'] show ?thesis by simp
  next
    case (Some a)
    with io w' show ?thesis by simp
  qed
qed

text \<open>
  C5. Resolving a candidate whose reference is a data URI leaves the network untouched:
  no \<^verbatim>\<open>fetch\<close> is issued. Resolving any other candidate moves the network by exactly one
  \<^verbatim>\<open>fetch\<close>, that of the candidate's URL with the configured user agent, issued in the
  state the resolution started in. Over a list, the network ends in the state reached by
  one such \<^verbatim>\<open>fetch\<close> for each candidate the scan reaches that is not a data URI, in list
  order.
\<close>

theorem data_uri_never_fetched:
  "snd (tryCandidateIO d net config img w)
     = (if isDataUrl d (og_url img) then w
        else snd (net (og_url img) (USER_AGENT config) w))
   \<and> snd (tryCandidateIO d (loggingNet answer) config img requests)
       = (if isDataUrl d (og_url img) then requests else requests @ [og_url img])
   \<and> snd (fetchBestOGImageIO d net images config w)
       = foldl (\<lambda>v x. snd (net (og_url x) (USER_AGENT config) v)) w
           (filter (\<lambda>x. \<not> isDataUrl d (og_url x)) (reached d net images config w))"
proof -
  have "afterFetch net config = (\<lambda>v x. snd (net (og_url x) (USER_AGENT config) v))"
    by (intro ext) (simp add: afterFetch_def)
  with tryCandidateIO_world [of d net config img w]
    tryCandidateIO_world [of d "loggingNet answer" config img requests]
    fetchBestOGImageIO_world [of d net images config w]
  show ?thesis by (simp add: afterFetch_def loggingNet_def)
qed

theorem data_uri_never_fetched_witness:
  "snd (tryCandidateIO sample_deps (loggingNet (fetchImage sample_deps)) sample_config
          (sample_image ''data:image/png;base64,iVBORw0KGgo='') []) = []
   \<and> snd (tryCandidateIO sample_deps (loggingNet (fetchImage sample_deps)) sample_config
          (sample_image ''https://example.com/og.png'') []) = [''https://example.com/og.png'']
   \<and> fetchBestOGImageIO sample_deps (loggingNet (fetchImage sample_deps))
         [sample_image ''data:,'', sample_image ''https://example.com/missing.png'',
          sample_image ''data:image/png;base64,iVBORw0KGgo='',
          sample_image ''https://example.com/og.png''] sample_config []
       = (Some \<lparr> ra_data = [0x89, 0x50, 0x4E, 0x47, 0x0D, 0x0A, 0x1A, 0x0A],
                  ra_format = ''png'', ra_source = ''og:image'',
                  ra_url = ''data:image/png;base64,iVBORw0KGgo='',
                  ra_isFallback = Some False \<rparr>,
          [''https://example.com/missing.png''])"
proof -
  note t = data_uri_never_fetched
  have a: "snd (tryCandidateIO sample_deps (loggingNet (fetchImage sample_deps)) sample_config
          (sample_image ''data:image/png;base64,iVBORw0KGgo='') []) = []"
    by (subst t [THEN conjunct2, THEN conjunct1])
      (simp add: sample_deps_def sample_image_def isDataUrl_spec_def startsWith_def)
  have b: "snd (tryCandidateIO sample_deps (loggingNet (fetchImage sample_deps)) sample_config
          (sample_image ''https://example.com/og.png'') []) = [''https://example.com/og.png'']"
    by (subst t [THEN conjunct2, THEN conjunct1])
      (simp add: sample_deps_def sample_image_def isDataUrl_spec_def startsWith_def)
  have c: "fetchBestOGImageIO sample_deps (loggingNet (fetchImage sample_deps))
         [sample_image ''data:,'', sample_image ''https://example.com/missing.png'',
          sample_image ''data:image/png;base64,iVBORw0KGgo='',
          sample_image ''https://example.com/og.png''] sample_config []
       = (Some \<lparr> ra_data = [0x89, 0x50, 0x4E, 0x47, 0x0D, 0x0A, 0x1A, 0x0A],
                  ra_format = ''png'', ra_source = ''og:image'',
                  ra_url = ''data:image/png;base64,iVBORw0KGgo='',
                  ra_isFallback = Some False \<rparr>,
          [''https://example.com/missing.png''])"
    by (simp add: tryCandidateIO_def checkBuffer_def detectFormat_def byteAt_def or_str_def
        truthy_str_def sample_deps_def loggingNet_def sample_image_def sample_config_def
        sample_png_def isDataUrl_spec_def startsWith_def)
  from a b c show ?thesis by blast
qed

subsection \<open>Page analyzer\<close>

paragraph \<open>Sorting\<close>

lemma set_insertSorted: "set (insertSorted cmp x ys) = insert x (set ys)"
  by (induction ys) auto

lemma set_jsSort: "set (jsSort cmp xs) = set xs"
  by (induction xs) (auto simp: set_insertSorted)

lemma sorted_insertSorted:
  fixes f :: "'a \<Rightarrow> int"
  assumes "sorted_wrt (\<lambda>a b. f a \<ge> f b) ys"
  shows "sorted_wrt (\<lambda>a b. f a \<ge> f b) (insertSorted (\<lambda>a b. f b - f a) x ys)"
  using assms by (induction ys) (auto simp: set_insertSorted)

lemma sorted_jsSort:
  fixes f :: "'a \<Rightarrow> int"
  shows "sorted_wrt (\<lambda>a b. f a \<ge> f b) (jsSort (\<lambda>a b. f b - f a) xs)"
  by (induction xs) (auto intro: sorted_insertSorted)

lemma filter_insertSorted:
  fixes f :: "'a \<Rightarrow> int"
  assumes "sorted_wrt (\<lambda>a b. f a \<ge> f b) ys"
  shows "filter (\<lambda>c. f c = k) (insertSorted (\<lambda>a b. f b - f a) x ys)
           = filter (\<lambda>c. f c = k) (x # ys)"
  using assms
proof (induction ys)
  case Nil
  then show ?case by simp
next
  case (Cons y ys)
  show ?case
  proof (cases "f y - f x \<le> 0")
    case True
    then show ?thesis by simp
  next
    case False
    then have "f x < f y" by simp
    moreover from Cons have "filter (\<lambda>c. f c = k) (insertSorted (\<lambda>a b. f b - f a) x ys)
           = filter (\<lambda>c. f c = k) (x # ys)" by simp
    ultimately show ?thesis using False by auto
  qed
qed

lemma filter_jsSort:
  fixes f :: "'a \<Rightarrow> int"
  shows "filter (\<lambda>c. f c = k) (jsSort (\<lambda>a b. f b - f a) xs) = filter (\<lambda>c. f c = k) xs"
  by (induction xs) (simp_all add: filter_insertSorted sorted_jsSort)

text \<open>Equal scores keep their order: \<open>b\<close> stays before \<open>d\<close>, and \<open>a\<close> before \<open>c\<close>.\<close>

lemma jsSort_ties_example:
  "jsSort (\<lambda>x y. snd y - snd x) [(''a'', 1), (''b'', 2), (''c'', 1), (''d'', 2 :: int)]
     = [(''b'', 2), (''d'', 2), (''a'', 1), (''c'', 1)]"
  by simp

paragraph \<open>What the extractors emit\<close>

lemma map_filter_set: "c \<in> set (List.map_filter g xs) \<Longrightarrow> \<exists>x \<in> set xs. g x = Some c"
  by (auto simp: map_filter_def)

lemma linkTag_flags:
  "c \<in> set (extractFaviconFromLinkTags isData doc baseUrl) \<Longrightarrow>
     fs_isFallback c = None \<and> fs_source c = ''link-tag''"
  by (auto simp: extractFaviconFromLinkTags_def linkTagFavicon_def Let_def
      dest!: map_filter_set split: if_splits)

lemma manifestIcons_member:
  "c \<in> set (manifestIcons isData baseUrl entries) \<Longrightarrow>
     \<exists>icon. manifestFavicon isData baseUrl icon = Some c"
proof (induction entries)
  case Nil
  then show ?case by simp
next
  case (Cons e es)
  show ?case
  proof (cases e)
    case RaisingEntry
    with Cons.prems show ?thesis by simp
  next
    case (IconEntry icon)
    show ?thesis
    proof (cases "manifestFavicon isData baseUrl icon")
      case None
      with Cons IconEntry show ?thesis by simp
    next
      case (Some x)
      with Cons IconEntry show ?thesis by auto
    qed
  qed
qed

lemma manifest_icons:
  assumes "c \<in> set (extractFaviconFromManifest env baseUrl config)"
  shows "\<exists>icon. manifestFavicon (isDataUrl env) baseUrl icon = Some c"
proof (cases "fetchManifest env (baseUrl @ ''/manifest.json'') (USER_AGENT config)")
  case Raised
  with assms show ?thesis by (simp add: extractFaviconFromManifest_def)
next
  case (Returned response)
  note resp = this
  show ?thesis
  proof (cases "mr_ok response")
    case False
    with assms resp show ?thesis by (simp add: extractFaviconFromManifest_def)
  next
    case True
    note ok = this
    show ?thesis
    proof (cases "mr_json response")
      case Raised
      with assms resp ok show ?thesis by (simp add: extractFaviconFromManifest_def)
    next
      case (Returned manifest)
      with assms resp ok show ?thesis
        by (cases "mf_icons manifest")
          (auto simp: extractFaviconFromManifest_def dest: manifestIcons_member)
    qed
  qed
qed

lemma manifest_flags:
  assumes "c \<in> set (extractFaviconFromManifest env baseUrl config)"
  shows "fs_isFallback c = None \<and> fs_source c = ''manifest'' \<and> fs_score c = 40"
proof -
  from manifest_icons [OF assms] obtain icon where
    "manifestFavicon (isDataUrl env) baseUrl icon = Some c"
    by blast
  then show ?thesis
    by (cases "truthy_str (mi_src icon)") (auto simp: manifestFavicon_def)
qed

lemma ogTags_flags:
  "c \<in> set (extractOGFromTags isData doc baseUrl) \<Longrightarrow>
     og_isFallback c = Some False \<and> og_source c = ''og:image''"
  by (auto simp: extractOGFromTags_def ogCandidate_def Let_def
      dest!: map_filter_set split: if_splits)

lemma twitter_flags:
  "c \<in> set (extractOGFromTwitterTags isData doc baseUrl) \<Longrightarrow>
     og_isFallback c = Some False \<and> og_source c = ''twitter:image''"
  by (auto simp: extractOGFromTwitterTags_def split: if_splits)

lemma ldImages_flags:
  "c \<in> set (fst (ldImages isData baseUrl entries)) \<Longrightarrow>
     og_isFallback c = Some False \<and> og_source c = ''schema.org''"
proof (induction entries)
  case Nil
  then show ?case by simp
next
  case (Cons e es)
  then show ?case
    by (cases e) (auto simp: ldCandidate_def split: prod.splits if_splits)
qed

lemma ldSchemas_flags:
  "c \<in> set (fst (ldSchemas isData baseUrl schemas)) \<Longrightarrow>
     og_isFallback c = Some False \<and> og_source c = ''schema.org''"
proof (induction schemas)
  case Nil
  then show ?case by simp
next
  case (Cons s ss)
  show ?case
  proof (cases s)
    case NullSchema
    with Cons.prems show ?thesis by simp
  next
    case (Schema p)
    obtain images raised where i: "ldImages isData baseUrl (imageUrls p) = (images, raised)"
      by (cases "ldImages isData baseUrl (imageUrls p)")
    obtain later raised' where m: "ldSchemas isData baseUrl ss = (later, raised')"
      by (cases "ldSchemas isData baseUrl ss")
    from Cons.prems Schema i m have "c \<in> set images \<or> c \<in> set later"
      by (auto split: if_splits)
    then show ?thesis
    proof
      assume "c \<in> set images"
      with i ldImages_flags [of c isData baseUrl "imageUrls p"] show ?thesis by simp
    next
      assume "c \<in> set later"
      with Cons.IH m show ?thesis by simp
    qed
  qed
qed

lemma jsonLd_flags:
  "c \<in> set (extractOGFromJsonLd isData doc baseUrl) \<Longrightarrow>
     og_isFallback c = Some False \<and> og_source c = ''schema.org''"
proof -
  assume "c \<in> set (extractOGFromJsonLd isData doc baseUrl)"
  then obtain b where "c \<in> set (ldBlock isData baseUrl b)"
    by (auto simp: extractOGFromJsonLd_def)
  then show ?thesis
    using ldSchemas_flags [of c isData baseUrl] by (cases b) auto
qed

lemma analyzeTry_cases:
  "analyzeTry env targetUrl config = noResults
   \<or> (\<exists>html finalUrl u.
         fetchHtml env targetUrl config = Returned (html, finalUrl)
         \<and> newURL env finalUrl = Some u
         \<and> analyzeTry env targetUrl config =
             (extractFaviconFromLinkTags (isDataUrl env) (cheerioLoad env html) (baseUrlOf u)
                @ staticFallbacks (baseUrlOf u)
                @ extractFaviconFromManifest env (baseUrlOf u) config,
              extractOGFromTags (isDataUrl env) (cheerioLoad env html) (baseUrlOf u)
                @ extractOGFromTwitterTags (isDataUrl env) (cheerioLoad env html) (baseUrlOf u)
                @ extractOGFromJsonLd (isDataUrl env) (cheerioLoad env html) (baseUrlOf u),
              extractMetadata (cheerioLoad env html)))"
  by (simp add: analyzeTry_def Let_def split: attempt.splits option.splits prod.splits)

lemma static_flags:
  "c \<in> set (staticFallbacks baseUrl) \<Longrightarrow> fs_isFallback c = None \<and> fs_source c = ''fallback''"
  by (auto simp: staticFallbacks_def)

lemma analyzeTry_favicon_flags:
  assumes "analyzeTry env targetUrl config = (fs, ogs, md)" and "c \<in> set fs"
  shows "fs_isFallback c = None
     \<and> (fs_source c = ''link-tag'' \<or> fs_source c = ''fallback'' \<or> fs_source c = ''manifest'')"
  using analyzeTry_cases [of env targetUrl config]
proof
  assume "analyzeTry env targetUrl config = noResults"
  with assms show ?thesis by (simp add: noResults_def)
next
  assume "\<exists>html finalUrl u.
         fetchHtml env targetUrl config = Returned (html, finalUrl)
         \<and> newURL env finalUrl = Some u
         \<and> analyzeTry env targetUrl config =
             (extractFaviconFromLinkTags (isDataUrl env) (cheerioLoad env html) (baseUrlOf u)
                @ staticFallbacks (baseUrlOf u)
                @ extractFaviconFromManifest env (baseUrlOf u) config,
              extractOGFromTags (isDataUrl env) (cheerioLoad env html) (baseUrlOf u)
                @ extractOGFromTwitterTags (isDataUrl env) (cheerioLoad env html) (baseUrlOf u)
                @ extractOGFromJsonLd (isDataUrl env) (cheerioLoad env html) (baseUrlOf u),
              extractMetadata (cheerioLoad env html))"
  then obtain html u where
    "fs = extractFaviconFromLinkTags (isDataUrl env) (cheerioLoad env html) (baseUrlOf u)
                @ staticFallbacks (baseUrlOf u)
                @ extractFaviconFromManifest env (baseUrlOf u) config"
    using assms(1) by auto
  with assms(2) have
    "c \<in> set (extractFaviconFromLinkTags (isDataUrl env) (cheerioLoad env html) (baseUrlOf u))
     \<or> c \<in> set (staticFallbacks (baseUrlOf u))
     \<or> c \<in> set (extractFaviconFromManifest env (baseUrlOf u) config)"
    by auto
  then show ?thesis
    using linkTag_flags [of c] static_flags [of c] manifest_flags [of c] by blast
qed

lemma analyzeTry_og_flags:
  assumes "analyzeTry env targetUrl config = (fs, ogs, md)" and "c \<in> set ogs"
  shows "og_isFallback c = Some False
     \<and> (og_source c = ''og:image'' \<or> og_source c = ''twitter:image''
        \<or> og_source c = ''schema.org'')"
  using analyzeTry_cases [of env targetUrl config]
proof
  assume "analyzeTry env targetUrl config = noResults"
  with assms show ?thesis by (simp add: noResults_def)
next
  assume "\<exists>html finalUrl u.
         fetchHtml env targetUrl config = Returned (html, finalUrl)
         \<and> newURL env finalUrl = Some u
         \<and> analyzeTry env targetUrl config =
             (extractFaviconFromLinkTags (isDataUrl env) (cheerioLoad env html) (baseUrlOf u)
                @ staticFallbacks (baseUrlOf u)
                @ extractFaviconFromManifest env (baseUrlOf u) config,
              extractOGFromTags (isDataUrl env) (cheerioLoad env html) (baseUrlOf u)
                @ extractOGFromTwitterTags (isDataUrl env) (cheerioLoad env html) (baseUrlOf u)
                @ extractOGFromJsonLd (isDataUrl env) (cheerioLoad env html) (baseUrlOf u),
              extractMetadata (cheerioLoad env html))"
  then obtain html u where
    "ogs = extractOGFromTags (isDataUrl env) (cheerioLoad env html) (baseUrlOf u)
                @ extractOGFromTwitterTags (isDataUrl env) (cheerioLoad env html) (baseUrlOf u)
                @ extractOGFromJsonLd (isDataUrl env) (cheerioLoad env html) (baseUrlOf u)"
    using assms(1) by auto
  with assms(2) have
    "c \<in> set (extractOGFromTags (isDataUrl env) (cheerioLoad env html) (baseUrlOf u))
     \<or> c \<in> set (extractOGFromTwitterTags (isDataUrl env) (cheerioLoad env html) (baseUrlOf u))
     \<or> c \<in> set (extractOGFromJsonLd (isDataUrl env) (cheerioLoad env html) (baseUrlOf u))"
    by auto
  then show ?thesis
    using ogTags_flags [of c] twitter_flags [of c] jsonLd_flags [of c] by blast
qed

lemma analyzePage_Returned:
  "analyzePage env url config sz = Returned r \<longleftrightarrow>
     (\<exists>fs ogs md. collectCandidates env url config sz = Returned (fs, ogs, md)
        \<and> r = \<lparr> favicons = jsSort (\<lambda>a b. fs_score b - fs_score a) fs,
                 ogImages = jsSort (\<lambda>a b. og_score b - og_score a) ogs,
                 metadata = md \<rparr>)"
  by (auto simp: analyzePage_def split: attempt.splits)

lemma collectCandidates_Returned:
  "collectCandidates env url config sz = Returned (fs, ogs, md) \<longleftrightarrow>
     (\<exists>fs0. analyzeTry env (targetUrlOf url) config = (fs0, ogs, md)
        \<and> (if USE_FALLBACK_API config
            then \<exists>c. fallbackApiCandidate env url sz = Returned c \<and> fs = fs0 @ [c]
            else fs = fs0))"
  by (auto simp: collectCandidates_def Let_def split: attempt.splits prod.splits)

lemma fallbackApi_flags:
  "fallbackApiCandidate env url sz = Returned c \<Longrightarrow>
     fs_isFallback c = Some True \<and> fs_source c = ''fallback-api''"
  by (auto simp: fallbackApiCandidate_def Let_def split: option.splits)

paragraph \<open>The page analyzer's result\<close>

lemma analyzePage_total:
  "analyzePage env url config sz = Raised \<longleftrightarrow>
     USE_FALLBACK_API config
     \<and> newURL env (if startsWith (trim url) ''http'' then trim url
                     else ''https://'' @ trim url) = None"
proof -
  obtain fs ogs md where a: "analyzeTry env (targetUrlOf url) config = (fs, ogs, md)"
    by (cases "analyzeTry env (targetUrlOf url) config")
  show ?thesis
  proof (cases "USE_FALLBACK_API config")
    case False
    with a show ?thesis by (simp add: analyzePage_def collectCandidates_def)
  next
    case True
    with a show ?thesis
      by (cases "newURL env (if startsWith (trim url) ''http'' then trim url
                             else ''https://'' @ trim url)")
        (simp_all add: analyzePage_def collectCandidates_def fallbackApiCandidate_def Let_def)
  qed
qed

lemma analyzeTry_fetch_failed:
  "fetchHtml env targetUrl config = Raised \<Longrightarrow> analyzeTry env targetUrl config = noResults"
  by (simp add: analyzeTry_def)

lemma analyzeTry_fetched:
  "fetchHtml env targetUrl config = Returned (html, finalUrl) \<Longrightarrow>
   newURL env finalUrl = Some u \<Longrightarrow>
   set (staticFallbacks (baseUrlOf u)) \<subseteq> set (fst (analyzeTry env targetUrl config))"
  by (auto simp: analyzeTry_def Let_def)

paragraph \<open>The sample page, evaluated\<close>

lemmas sample_eval =
  analyzePage_def collectCandidates_def targetUrlOf_def analyzeTry_def
      fetchHtml_def sample_env_def sample_config_def sample_newURL_def sample_host_def
      sample_document_def sample_deps_def isDataUrl_spec_def startsWith_def baseUrlOf_def
      staticFallbacks_def extractFaviconFromLinkTags_def linkTagFavicon_def
      extractFaviconFromManifest_def extractOGFromTags_def extractOGFromTwitterTags_def
      extractOGFromJsonLd_def extractMetadata_def fallbackApiCandidate_def noResults_def
      resolver_deps.extend_def page_env.fields_def map_filter_def truthy_str_def
      truthy_nat_def truthy_int_def or_str_def parseSizes_def calculateFaviconScore_def
      calculateOGScore_def opt_includes_def resolveUrl_def collectOgUrl_def applyOgMeta_def
      ogCandidate_def ldCandidate_def parseInt10_def isSpace_def isDigit_def digitsVal_def
      digitVal_def trim_def showNat.simps BROWSER_USER_AGENT_def Let_def

lemma sample_page_result:
  "analyzePage sample_env ''example.com'' sample_config None =
     Returned
       \<lparr> favicons =
           [\<lparr> fs_url = ''https://www.example.com/icon-512.png'', fs_size = Some 512,
               fs_format = Some ''image/png'', fs_source = ''link-tag'', fs_score = 160,
               fs_isFallback = None \<rparr>,
            \<lparr> fs_url = ''https://www.example.com/icon-256.png'', fs_size = Some 256,
               fs_format = Some ''image/png'', fs_source = ''link-tag'', fs_score = 150,
               fs_isFallback = None \<rparr>,
            \<lparr> fs_url = ''https://www.example.com/apple-touch-icon.png'', fs_size = None,
               fs_format = None, fs_source = ''fallback'', fs_score = 20,
               fs_isFallback = None \<rparr>,
            \<lparr> fs_url = ''https://www.example.com/favicon.ico'', fs_size = None,
               fs_format = None, fs_source = ''fallback'', fs_score = 10,
               fs_isFallback = None \<rparr>,
            \<lparr> fs_url = ''https://www.google.com/s2/favicons?domain=https%3A%2F%2Fexample.com&sz=64'',
               fs_size = None, fs_format = None, fs_source = ''fallback-api'', fs_score = 1,
               fs_isFallback = Some True \<rparr>],
         ogImages =
           [\<lparr> og_url = ''https://www.example.com/og.png'', og_width = Some 1200,
               og_height = Some 630, og_alt = None, og_type = None, og_source = ''og:image'',
               og_score = 240, og_isFallback = Some False \<rparr>,
            \<lparr> og_url = ''https://cdn.example.com/card.png'', og_width = None,
               og_height = None, og_alt = None, og_type = None,
               og_source = ''twitter:image'', og_score = 130, og_isFallback = Some False \<rparr>,
            \<lparr> og_url = ''https://cdn.example.com/ld.png'', og_width = None, og_height = None,
               og_alt = None, og_type = None, og_source = ''schema.org'', og_score = 110,
               og_isFallback = Some False \<rparr>],
         metadata = \<lparr> pm_title = Some ''Example'', pm_description = None,
                       pm_siteName = None \<rparr> \<rparr>"
  by (simp add: sample_eval)

lemma sample_down_result:
  "analyzePage sample_env ''down.example.com'' sample_config None =
     Returned
       \<lparr> favicons =
           [\<lparr> fs_url = ''https://www.google.com/s2/favicons?domain=https%3A%2F%2Fdown.example.com&sz=64'',
               fs_size = None, fs_format = None, fs_source = ''fallback-api'', fs_score = 1,
               fs_isFallback = Some True \<rparr>],
         ogImages = [],
         metadata = \<lparr> pm_title = None, pm_description = None, pm_siteName = None \<rparr> \<rparr>"
  by (simp add: sample_eval)

paragraph \<open>The candidate lists\<close>

text \<open>
  C1 as stated fails for the static fallback locations: the candidates for
  \<^verbatim>\<open>/favicon.ico\<close> and \<^verbatim>\<open>/apple-touch-icon.png\<close> carry the source tag \<^verbatim>\<open>fallback\<close> and no
  \<^verbatim>\<open>isFallback\<close> flag at all.
\<close>

theorem isFallback_static_counterexample:
  "analyzePage sample_env ''example.com'' sample_config None =
     Returned
       \<lparr> favicons =
           [\<lparr> fs_url = ''https://www.example.com/icon-512.png'', fs_size = Some 512,
               fs_format = Some ''image/png'', fs_source = ''link-tag'', fs_score = 160,
               fs_isFallback = None \<rparr>,
            \<lparr> fs_url = ''https://www.example.com/icon-256.png'', fs_size = Some 256,
               fs_format = Some ''image/png'', fs_source = ''link-tag'', fs_score = 150,
               fs_isFallback = None \<rparr>,
            \<lparr> fs_url = ''https://www.example.com/apple-touch-icon.png'', fs_size = None,
               fs_format = None, fs_source = ''fallback'', fs_score = 20,
               fs_isFallback = None \<rparr>,
            \<lparr> fs_url = ''https://www.example.com/favicon.ico'', fs_size = None,
               fs_format = None, fs_source = ''fallback'', fs_score = 10,
               fs_isFallback = None \<rparr>,
            \<lparr> fs_url = ''https://www.google.com/s2/favicons?domain=https%3A%2F%2Fexample.com&sz=64'',
               fs_size = None, fs_format = None, fs_source = ''fallback-api'', fs_score = 1,
               fs_isFallback = Some True \<rparr>],
         ogImages =
           [\<lparr> og_url = ''https://www.example.com/og.png'', og_width = Some 1200,
               og_height = Some 630, og_alt = None, og_type = None, og_source = ''og:image'',
               og_score = 240, og_isFallback = Some False \<rparr>,
            \<lparr> og_url = ''https://cdn.example.com/card.png'', og_width = None,
               og_height = None, og_alt = None, og_type = None,
               og_source = ''twitter:image'', og_score = 130, og_isFallback = Some False \<rparr>,
            \<lparr> og_url = ''https://cdn.example.com/ld.png'', og_width = None, og_height = None,
               og_alt = None, og_type = None, og_source = ''schema.org'', og_score = 110,
               og_isFallback = Some False \<rparr>],
         metadata = \<lparr> pm_title = Some ''Example'', pm_description = None,
                       pm_siteName = None \<rparr> \<rparr>"
  by (simp add: sample_eval)

text \<open>
  C1, amended. Among the favicon candidates \<^verbatim>\<open>analyzePage\<close> produces, \<^verbatim>\<open>isFallback\<close> is
  true exactly for the external fallback-API candidate (source \<^verbatim>\<open>fallback-api\<close>); every
  other favicon candidate, the static fallback locations included, carries no flag.
  Every OG candidate carries \<^verbatim>\<open>isFallback = false\<close> and one of the sources
  \<^verbatim>\<open>og:image\<close>, \<^verbatim>\<open>twitter:image\<close>, \<^verbatim>\<open>schema.org\<close>, and the asset \<^verbatim>\<open>fetchBestOGImage\<close> returns
  for them carries the flag and the source of the candidate it resolved.
\<close>

theorem isFallback_flags:
  assumes "analyzePage env url config sz = Returned r"
  shows "(\<forall>c \<in> set (favicons r).
            (fs_isFallback c = Some True \<longleftrightarrow> fs_source c = ''fallback-api'')
            \<and> (fs_source c \<noteq> ''fallback-api'' \<longrightarrow> fs_isFallback c = None))
     \<and> (\<forall>c \<in> set (ogImages r).
            og_isFallback c = Some False
            \<and> og_source c \<in> {''og:image'', ''twitter:image'', ''schema.org''})
     \<and> (\<forall>d fetched a. fst (fetchBestOGImage d (ogImages r) config fetched) = Some a \<longrightarrow>
            ra_isFallback a = Some False
            \<and> ra_source a \<in> {''og:image'', ''twitter:image'', ''schema.org''}
            \<and> (\<exists>c \<in> set (ogImages r). ra_url a = og_url c \<and> ra_source a = og_source c
                  \<and> ra_isFallback a = og_isFallback c))"
proof -
  from assms obtain fs ogs md where
    c: "collectCandidates env url config sz = Returned (fs, ogs, md)"
    and rf: "favicons r = jsSort (\<lambda>a b. fs_score b - fs_score a) fs"
    and ro: "ogImages r = jsSort (\<lambda>a b. og_score b - og_score a) ogs"
    unfolding analyzePage_Returned by auto
  from c obtain fs0 where t: "analyzeTry env (targetUrlOf url) config = (fs0, ogs, md)"
    and fs: "fs = fs0 \<or> (\<exists>x. fallbackApiCandidate env url sz = Returned x \<and> fs = fs0 @ [x])"
    unfolding collectCandidates_Returned by (cases "USE_FALLBACK_API config") auto
  have fav: "(fs_isFallback x = Some True \<longleftrightarrow> fs_source x = ''fallback-api'')
            \<and> (fs_source x \<noteq> ''fallback-api'' \<longrightarrow> fs_isFallback x = None)"
    if "x \<in> set (favicons r)" for x
  proof -
    from that rf have "x \<in> set fs" by (simp add: set_jsSort)
    with fs have "x \<in> set fs0 \<or> fallbackApiCandidate env url sz = Returned x" by auto
    then show ?thesis
    proof
      assume "x \<in> set fs0"
      from analyzeTry_favicon_flags [OF t this] show ?thesis by auto
    next
      assume "fallbackApiCandidate env url sz = Returned x"
      from fallbackApi_flags [OF this] show ?thesis by simp
    qed
  qed
  have og: "og_isFallback x = Some False
            \<and> og_source x \<in> {''og:image'', ''twitter:image'', ''schema.org''}"
    if "x \<in> set (ogImages r)" for x
  proof -
    from that ro have "x \<in> set ogs" by (simp add: set_jsSort)
    from analyzeTry_og_flags [OF t this] show ?thesis by auto
  qed
  have res: "ra_isFallback a = Some False
            \<and> ra_source a \<in> {''og:image'', ''twitter:image'', ''schema.org''}
            \<and> (\<exists>c \<in> set (ogImages r). ra_url a = og_url c \<and> ra_source a = og_source c
                  \<and> ra_isFallback a = og_isFallback c)"
    if "fst (fetchBestOGImage d (ogImages r) config fetched) = Some a" for d fetched a
  proof -
    from fetchBest_Some [OF that] obtain pre x post where
      l: "ogImages r = pre @ x # post" and s: "fst (tryCandidate d config x []) = Some a"
      by blast
    from l have m: "x \<in> set (ogImages r)" by simp
    from tryCandidate_Some_fields [OF s] og [OF m] m show ?thesis by auto
  qed
  from fav og res show ?thesis by blast
qed

theorem isFallback_flags_witness:
  "\<exists>r. analyzePage sample_env ''example.com'' sample_config None = Returned r
      \<and> filter (\<lambda>c. fs_isFallback c = Some True) (favicons r)
          = filter (\<lambda>c. fs_source c = ''fallback-api'') (favicons r)
      \<and> map og_isFallback (ogImages r) = [Some False, Some False, Some False]"
proof -
  obtain r where a: "analyzePage sample_env ''example.com'' sample_config None = Returned r"
    using sample_page_result by blast
  from isFallback_flags [OF a]
  have "\<forall>c \<in> set (favicons r). (fs_isFallback c = Some True) = (fs_source c = ''fallback-api'')"
    by blast
  then have f: "filter (\<lambda>c. fs_isFallback c = Some True) (favicons r)
          = filter (\<lambda>c. fs_source c = ''fallback-api'') (favicons r)"
    by (intro filter_cong refl) blast
  from a have m: "map og_isFallback (ogImages r) = [Some False, Some False, Some False]"
    unfolding sample_page_result by auto
  from a f m show ?thesis by (intro exI [of _ r]) simp
qed

text \<open>
  C2 as stated fails when the HTML cannot be fetched: the pushes of the two static
  locations stand inside the \<^verbatim>\<open>try\<close> block, after \<^verbatim>\<open>fetchHtml\<close>. For a host that does not
  answer, the favicon list holds the external fallback-API candidate and nothing else.
\<close>

theorem static_fallbacks_counterexample:
  "analyzePage sample_env ''down.example.com'' sample_config None =
     Returned
       \<lparr> favicons =
           [\<lparr> fs_url = ''https://www.google.com/s2/favicons?domain=https%3A%2F%2Fdown.example.com&sz=64'',
               fs_size = None, fs_format = None, fs_source = ''fallback-api'', fs_score = 1,
               fs_isFallback = Some True \<rparr>],
         ogImages = [],
         metadata = \<lparr> pm_title = None, pm_description = None, pm_siteName = None \<rparr> \<rparr>"
  by (simp add: sample_eval)

text \<open>
  C2, amended. Whenever the page's HTML was fetched and its final URL parses, the favicon
  list contains the two static candidates \<^verbatim>\<open>{origin}/favicon.ico\<close> (score 10) and
  \<^verbatim>\<open>{origin}/apple-touch-icon.png\<close> (score 20) for the origin of the final URL, whatever
  the markup and the manifest contain. When the HTML could not be fetched, the list
  contains no static candidate: at most the external fallback-API candidate.
\<close>

theorem static_fallbacks_when_fetched:
  "(\<forall>html finalUrl u r.
      fetchHtml env (targetUrlOf url) config = Returned (html, finalUrl)
      \<and> newURL env finalUrl = Some u
      \<and> analyzePage env url config sz = Returned r \<longrightarrow>
        \<lparr> fs_url = baseUrlOf u @ ''/favicon.ico'', fs_size = None, fs_format = None,
          fs_source = ''fallback'', fs_score = 10, fs_isFallback = None \<rparr> \<in> set (favicons r)
        \<and> \<lparr> fs_url = baseUrlOf u @ ''/apple-touch-icon.png'', fs_size = None,
            fs_format = None, fs_source = ''fallback'', fs_score = 20,
            fs_isFallback = None \<rparr> \<in> set (favicons r))
   \<and> (\<forall>r. fetchHtml env (targetUrlOf url) config = Raised
          \<and> analyzePage env url config sz = Returned r \<longrightarrow>
            length (favicons r) \<le> 1
            \<and> (\<forall>c \<in> set (favicons r). fs_source c = ''fallback-api''))"
proof -
  have fetched: "\<lparr> fs_url = baseUrlOf u @ ''/favicon.ico'', fs_size = None, fs_format = None,
          fs_source = ''fallback'', fs_score = 10, fs_isFallback = None \<rparr> \<in> set (favicons r)
        \<and> \<lparr> fs_url = baseUrlOf u @ ''/apple-touch-icon.png'', fs_size = None,
            fs_format = None, fs_source = ''fallback'', fs_score = 20,
            fs_isFallback = None \<rparr> \<in> set (favicons r)"
    if f: "fetchHtml env (targetUrlOf url) config = Returned (html, finalUrl)"
      and u: "newURL env finalUrl = Some u"
      and a: "analyzePage env url config sz = Returned r"
    for html finalUrl u r
  proof -
    from a obtain fs ogs md where
      c: "collectCandidates env url config sz = Returned (fs, ogs, md)"
      and r: "favicons r = jsSort (\<lambda>a b. fs_score b - fs_score a) fs"
      unfolding analyzePage_Returned by auto
    from c have "\<exists>fs0. analyzeTry env (targetUrlOf url) config = (fs0, ogs, md)
        \<and> set fs0 \<subseteq> set fs"
      unfolding collectCandidates_Returned by (cases "USE_FALLBACK_API config") auto
    then obtain fs0 where t: "analyzeTry env (targetUrlOf url) config = (fs0, ogs, md)"
      and sub: "set fs0 \<subseteq> set fs"
      by blast
    from analyzeTry_fetched [OF f u] t have "set (staticFallbacks (baseUrlOf u)) \<subseteq> set fs0"
      by simp
    with sub r have "set (staticFallbacks (baseUrlOf u)) \<subseteq> set (favicons r)"
      by (simp add: set_jsSort)
    then show ?thesis by (simp add: staticFallbacks_def)
  qed
  have failed: "length (favicons r) \<le> 1
            \<and> (\<forall>c \<in> set (favicons r). fs_source c = ''fallback-api'')"
    if f: "fetchHtml env (targetUrlOf url) config = Raised"
      and a: "analyzePage env url config sz = Returned r" for r
  proof -
    from a obtain fs ogs md where
      c: "collectCandidates env url config sz = Returned (fs, ogs, md)"
      and r: "favicons r = jsSort (\<lambda>a b. fs_score b - fs_score a) fs"
      unfolding analyzePage_Returned by auto
    from analyzeTry_fetch_failed [OF f] c
    have "fs = [] \<or> (\<exists>x. fallbackApiCandidate env url sz = Returned x \<and> fs = [x])"
      unfolding collectCandidates_Returned by (auto simp: noResults_def split: if_splits)
    then show ?thesis
    proof
      assume "fs = []"
      with r show ?thesis by simp
    next
      assume "\<exists>x. fallbackApiCandidate env url sz = Returned x \<and> fs = [x]"
      then obtain x where "fallbackApiCandidate env url sz = Returned x" "fs = [x]" by blast
      with r fallbackApi_flags [of env url sz x] show ?thesis by simp
    qed
  qed
  from fetched failed show ?thesis by blast
qed

theorem static_fallbacks_when_fetched_witness:
  "fetchHtml sample_env (targetUrlOf ''example.com'') sample_config
     = Returned (''<html>'', ''https://www.example.com/'')
   \<and> newURL sample_env ''https://www.example.com/''
     = Some \<lparr> url_protocol = ''https:'', url_hostname = ''www.example.com'' \<rparr>
   \<and> (\<exists>r. analyzePage sample_env ''example.com'' sample_config None = Returned r
        \<and> \<lparr> fs_url = ''https://www.example.com/favicon.ico'', fs_size = None,
             fs_format = None, fs_source = ''fallback'', fs_score = 10,
             fs_isFallback = None \<rparr> \<in> set (favicons r)
        \<and> \<lparr> fs_url = ''https://www.example.com/apple-touch-icon.png'', fs_size = None,
             fs_format = None, fs_source = ''fallback'', fs_score = 20,
             fs_isFallback = None \<rparr> \<in> set (favicons r))
   \<and> fetchHtml sample_env (targetUrlOf ''down.example.com'') sample_config = Raised
   \<and> (\<exists>r. analyzePage sample_env ''down.example.com'' sample_config None = Returned r
        \<and> length (favicons r) \<le> 1)"
proof -
  have f: "fetchHtml sample_env (targetUrlOf ''example.com'') sample_config
     = Returned (''<html>'', ''https://www.example.com/'')"
    by (simp add: sample_eval)
  have u: "newURL sample_env ''https://www.example.com/''
     = Some \<lparr> url_protocol = ''https:'', url_hostname = ''www.example.com'' \<rparr>"
    by (simp add: sample_eval)
  obtain r where a: "analyzePage sample_env ''example.com'' sample_config None = Returned r"
    using sample_page_result by blast
  have g: "fetchHtml sample_env (targetUrlOf ''down.example.com'') sample_config = Raised"
    by (simp add: sample_eval)
  obtain r' where a': "analyzePage sample_env ''down.example.com'' sample_config None = Returned r'"
    using sample_down_result by blast
  note t = static_fallbacks_when_fetched
    [of sample_env "''example.com''" sample_config None, THEN conjunct1, rule_format, of
      "''<html>''" "''https://www.example.com/''"
      "\<lparr> url_protocol = ''https:'', url_hostname = ''www.example.com'' \<rparr>" r]
  from t f u a have
    "\<lparr> fs_url = baseUrlOf \<lparr> url_protocol = ''https:'', url_hostname = ''www.example.com'' \<rparr>
               @ ''/favicon.ico'', fs_size = None, fs_format = None,
          fs_source = ''fallback'', fs_score = 10, fs_isFallback = None \<rparr> \<in> set (favicons r)
     \<and> \<lparr> fs_url = baseUrlOf \<lparr> url_protocol = ''https:'', url_hostname = ''www.example.com'' \<rparr>
               @ ''/apple-touch-icon.png'', fs_size = None,
            fs_format = None, fs_source = ''fallback'', fs_score = 20,
            fs_isFallback = None \<rparr> \<in> set (favicons r)"
    by blast
  then have s: "\<lparr> fs_url = ''https://www.example.com/favicon.ico'', fs_size = None,
             fs_format = None, fs_source = ''fallback'', fs_score = 10,
             fs_isFallback = None \<rparr> \<in> set (favicons r)
        \<and> \<lparr> fs_url = ''https://www.example.com/apple-touch-icon.png'', fs_size = None,
             fs_format = None, fs_source = ''fallback'', fs_score = 20,
             fs_isFallback = None \<rparr> \<in> set (favicons r)"
    by (simp add: baseUrlOf_def)
  from static_fallbacks_when_fetched
    [of sample_env "''down.example.com''" sample_config None, THEN conjunct2] g a'
  have "length (favicons r') \<le> 1" by blast
  with f u a s g a' show ?thesis by blast
qed

text \<open>
  C8. The two candidate lists \<^verbatim>\<open>analyzePage\<close> returns, which the request handlers hand
  to the resolvers as they are, are sorted by score in descending order, and for every
  score the candidates of that score stand in the order in which they were extracted.
\<close>

theorem analyzePage_sorted_stable:
  assumes "analyzePage env url config sz = Returned r"
  shows "sorted_wrt (\<lambda>a b. fs_score a \<ge> fs_score b) (favicons r)
     \<and> sorted_wrt (\<lambda>a b. og_score a \<ge> og_score b) (ogImages r)
     \<and> (\<exists>fs ogs md. collectCandidates env url config sz = Returned (fs, ogs, md)
          \<and> (\<forall>k. filter (\<lambda>c. fs_score c = k) (favicons r) = filter (\<lambda>c. fs_score c = k) fs)
          \<and> (\<forall>k. filter (\<lambda>c. og_score c = k) (ogImages r) = filter (\<lambda>c. og_score c = k) ogs))"
proof -
  from assms obtain fs ogs md where
    c: "collectCandidates env url config sz = Returned (fs, ogs, md)"
    and r: "r = \<lparr> favicons = jsSort (\<lambda>a b. fs_score b - fs_score a) fs,
                   ogImages = jsSort (\<lambda>a b. og_score b - og_score a) ogs,
                   metadata = md \<rparr>"
    unfolding analyzePage_Returned by blast
  have "sorted_wrt (\<lambda>a b. fs_score a \<ge> fs_score b) (favicons r)"
    using r sorted_jsSort [of fs_score fs] by simp
  moreover have "sorted_wrt (\<lambda>a b. og_score a \<ge> og_score b) (ogImages r)"
    using r sorted_jsSort [of og_score ogs] by simp
  moreover have "\<forall>k. filter (\<lambda>c. fs_score c = k) (favicons r) = filter (\<lambda>c. fs_score c = k) fs"
    using r filter_jsSort [of fs_score _ fs] by simp
  moreover have "\<forall>k. filter (\<lambda>c. og_score c = k) (ogImages r) = filter (\<lambda>c. og_score c = k) ogs"
    using r filter_jsSort [of og_score _ ogs] by simp
  ultimately show ?thesis using c by blast
qed

theorem analyzePage_sorted_stable_witness:
  "\<exists>r. analyzePage sample_env ''example.com'' sample_config None = Returned r
      \<and> map fs_score (favicons r) = [160, 150, 20, 10, 1]
      \<and> map og_score (ogImages r) = [240, 130, 110]
      \<and> sorted_wrt (\<lambda>a b. fs_score a \<ge> fs_score b) (favicons r)
      \<and> sorted_wrt (\<lambda>a b. og_score a \<ge> og_score b) (ogImages r)"
proof -
  obtain r where a: "analyzePage sample_env ''example.com'' sample_config None = Returned r"
    using sample_page_result by blast
  from a have m: "map fs_score (favicons r) = [160, 150, 20, 10, 1]"
    "map og_score (ogImages r) = [240, 130, 110]"
    unfolding sample_page_result by auto
  from analyzePage_sorted_stable [OF a]
  have s: "sorted_wrt (\<lambda>a b. fs_score a \<ge> fs_score b) (favicons r)"
    "sorted_wrt (\<lambda>a b. og_score a \<ge> og_score b) (ogImages r)"
    by blast+
  from a m s show ?thesis by (intro exI [of _ r]) simp
qed

text \<open>
  C10. With \<^verbatim>\<open>USE_FALLBACK_API\<close> enabled, \<^verbatim>\<open>analyzePage\<close> throws exactly when the trimmed
  input, prefixed with \<^verbatim>\<open>https://\<close> unless it starts with \<^verbatim>\<open>http\<close>, is rejected by
  \<^verbatim>\<open>new URL\<close>; with the option disabled it never throws. A failed HTML fetch by itself is
  swallowed and leaves empty candidate lists.
\<close>

theorem analyzePage_throws_on_unparsable_url:
  "(analyzePage env url config sz = Raised \<longleftrightarrow>
      USE_FALLBACK_API config
      \<and> newURL env (if startsWith (trim url) ''http'' then trim url
                      else ''https://'' @ trim url) = None)
   \<and> (\<not> USE_FALLBACK_API config \<and> fetchHtml env (targetUrlOf url) config = Raised \<longrightarrow>
        analyzePage env url config sz =
          Returned \<lparr> favicons = [], ogImages = [],
                     metadata = \<lparr> pm_title = None, pm_description = None,
                                   pm_siteName = None \<rparr> \<rparr>)"
proof -
  have "analyzePage env url config sz =
          Returned \<lparr> favicons = [], ogImages = [],
                     metadata = \<lparr> pm_title = None, pm_description = None,
                                   pm_siteName = None \<rparr> \<rparr>"
    if "\<not> USE_FALLBACK_API config" "fetchHtml env (targetUrlOf url) config = Raised"
    using that analyzeTry_fetch_failed [OF that(2)]
    by (simp add: analyzePage_def collectCandidates_def noResults_def)
  with analyzePage_total [of env url config sz] show ?thesis by blast
qed

theorem analyzePage_throws_on_unparsable_url_witness:
  "USE_FALLBACK_API sample_config
   \<and> newURL sample_env ''https://exa mple.com'' = None
   \<and> analyzePage sample_env ''  exa mple.com '' sample_config None = Raised
   \<and> analyzePage sample_env ''down.example.com''
        (sample_config \<lparr> USE_FALLBACK_API := False \<rparr>) None
       = Returned \<lparr> favicons = [], ogImages = [],
                    metadata = \<lparr> pm_title = None, pm_description = None,
                                  pm_siteName = None \<rparr> \<rparr>"
proof -
  have a: "USE_FALLBACK_API sample_config" by (simp add: sample_config_def)
  have b: "newURL sample_env ''https://exa mple.com'' = None" by (simp add: sample_eval)
  have t: "trim ''  exa mple.com '' = ''exa mple.com''" by (simp add: trim_def isSpace_def)
  have c: "newURL sample_env (if startsWith (trim ''  exa mple.com '') ''http''
              then trim ''  exa mple.com '' else ''https://'' @ trim ''  exa mple.com '') = None"
    unfolding t using b by (simp add: startsWith_def)
  note main = analyzePage_throws_on_unparsable_url
  from main [of sample_env "''  exa mple.com ''" sample_config None, THEN conjunct1] a c
  have d: "analyzePage sample_env ''  exa mple.com '' sample_config None = Raised" by blast
  have e: "\<not> USE_FALLBACK_API (sample_config \<lparr> USE_FALLBACK_API := False \<rparr>)" by simp
  have f: "fetchHtml sample_env (targetUrlOf ''down.example.com'')
             (sample_config \<lparr> USE_FALLBACK_API := False \<rparr>) = Raised"
    by (simp add: sample_eval)
  from main [of sample_env "''down.example.com''" "sample_config \<lparr> USE_FALLBACK_API := False \<rparr>"
      None, THEN conjunct2] e f
  have "analyzePage sample_env ''down.example.com''
        (sample_config \<lparr> USE_FALLBACK_API := False \<rparr>) None
       = Returned \<lparr> favicons = [], ogImages = [],
                    metadata = \<lparr> pm_title = None, pm_description = None,
                                  pm_siteName = None \<rparr> \<rparr>" by blast
  with a b d show ?thesis by blast
qed

paragraph \<open>Icon scores\<close>

lemma linkTagFavicon_sizes:
  assumes "linkTagFavicon isData baseUrl (e \<lparr> le_sizes := s \<rparr>) = Some c"
    and "linkTagFavicon isData baseUrl (e \<lparr> le_sizes := s' \<rparr>) = Some c'"
  shows "fs_size c = parseSizes s \<and> fs_size c' = parseSizes s'
     \<and> fs_score c = calculateFaviconScore (parseSizes s) (fs_format c)
                       (if truthy_str (le_rel e) then the (le_rel e) else [])
     \<and> fs_score c' = calculateFaviconScore (parseSizes s') (fs_format c)
                       (if truthy_str (le_rel e) then the (le_rel e) else [])"
proof (cases "truthy_str (le_href e)")
  case False
  with assms show ?thesis by (simp add: linkTagFavicon_def)
next
  case True
  with assms show ?thesis
    by (clarsimp simp: linkTagFavicon_def Let_def cong: if_cong option.case_cong)
qed

text \<open>
  C9 as stated fails for icon candidates that come from the web manifest: the manifest
  extractor gives every candidate the score 40. Two manifest icons that agree in
  everything but the declared width, 256 against 512, score the same.
\<close>

theorem manifest_score_counterexample:
  "extractFaviconFromManifest sample_manifest_env ''https://www.example.com'' sample_config =
     [\<lparr> fs_url = ''https://www.example.com/icon.png'', fs_size = Some 256,
         fs_format = Some ''image/png'', fs_source = ''manifest'', fs_score = 40,
         fs_isFallback = None \<rparr>,
      \<lparr> fs_url = ''https://www.example.com/icon.png'', fs_size = Some 512,
         fs_format = Some ''image/png'', fs_source = ''manifest'', fs_score = 40,
         fs_isFallback = None \<rparr>]"
  by (simp add: extractFaviconFromManifest_def manifestFavicon_def sample_manifest_env_def
      sample_env_def sample_deps_def resolver_deps.extend_def page_env.fields_def
      isDataUrl_spec_def startsWith_def resolveUrl_def truthy_str_def parseSizes_def
      isDigit_def digitsVal_def digitVal_def)

text \<open>
  C9, amended. The score \<^verbatim>\<open>calculateFaviconScore\<close> computes is monotonic in the declared
  size, and strictly greater for 512 than for 256 with the same type and rel. So two
  link-tag icon candidates from elements that agree in everything but the sizes
  attribute, one declaring width 256 and the other 512, score strictly in that order.
  Candidates from the manifest all carry the fixed score 40, whatever size they declare.
\<close>

theorem link_tag_score_monotonic_in_size:
  "calculateFaviconScore (Some 256) type rel < calculateFaviconScore (Some 512) type rel
   \<and> (\<forall>a b. a \<le> b \<longrightarrow>
          calculateFaviconScore (Some a) type rel \<le> calculateFaviconScore (Some b) type rel)
   \<and> (\<forall>e s s' c c'.
          parseSizes s = Some 256 \<and> parseSizes s' = Some 512
          \<and> linkTagFavicon isData baseUrl (e \<lparr> le_sizes := s \<rparr>) = Some c
          \<and> linkTagFavicon isData baseUrl (e \<lparr> le_sizes := s' \<rparr>) = Some c' \<longrightarrow>
            fs_size c = Some 256 \<and> fs_size c' = Some 512 \<and> fs_score c < fs_score c')
   \<and> (\<forall>c \<in> set (extractFaviconFromManifest env baseUrl config). fs_score c = 40)"
proof -
  have link: "fs_size c = Some 256 \<and> fs_size c' = Some 512 \<and> fs_score c < fs_score c'"
    if "parseSizes s = Some 256" "parseSizes s' = Some 512"
      "linkTagFavicon isData baseUrl (e \<lparr> le_sizes := s \<rparr>) = Some c"
      "linkTagFavicon isData baseUrl (e \<lparr> le_sizes := s' \<rparr>) = Some c'"
    for e s s' c c'
  proof -
    from linkTagFavicon_sizes [OF that(3) that(4)] that(1) that(2)
    have "fs_size c = Some 256" "fs_size c' = Some 512"
      "fs_score c = calculateFaviconScore (Some 256) (fs_format c)
                      (if truthy_str (le_rel e) then the (le_rel e) else [])"
      "fs_score c' = calculateFaviconScore (Some 512) (fs_format c)
                      (if truthy_str (le_rel e) then the (le_rel e) else [])"
      by simp_all
    with calculateFaviconScore_size
      [of "fs_format c" "if truthy_str (le_rel e) then the (le_rel e) else []"]
    show ?thesis by simp
  qed
  have "\<forall>c \<in> set (extractFaviconFromManifest env baseUrl config). fs_score c = 40"
    using manifest_flags by blast
  with link calculateFaviconScore_size [of type rel] show ?thesis by blast
qed

theorem link_tag_score_monotonic_in_size_witness:
  "parseSizes (Some ''256x256'') = Some 256
   \<and> parseSizes (Some ''512x512'') = Some 512
   \<and> linkTagFavicon isDataUrl_spec ''https://www.example.com'' (sample_link ''256x256'')
       = Some \<lparr> fs_url = ''https://www.example.com/icon.png'', fs_size = Some 256,
                 fs_format = Some ''image/png'', fs_source = ''link-tag'', fs_score = 150,
                 fs_isFallback = None \<rparr>
   \<and> linkTagFavicon isDataUrl_spec ''https://www.example.com'' (sample_link ''512x512'')
       = Some \<lparr> fs_url = ''https://www.example.com/icon.png'', fs_size = Some 512,
                 fs_format = Some ''image/png'', fs_source = ''link-tag'', fs_score = 160,
                 fs_isFallback = None \<rparr>
   \<and> fs_score \<lparr> fs_url = ''https://www.example.com/icon.png'', fs_size = Some 256,
                 fs_format = Some ''image/png'', fs_source = ''link-tag'', fs_score = 150,
                 fs_isFallback = None \<rparr>
       < fs_score \<lparr> fs_url = ''https://www.example.com/icon.png'', fs_size = Some 512,
                 fs_format = Some ''image/png'', fs_source = ''link-tag'', fs_score = 160,
                 fs_isFallback = None \<rparr>"
proof -
  have p: "parseSizes (Some ''256x256'') = Some 256" "parseSizes (Some ''512x512'') = Some 512"
    by (simp_all add: parseSizes_def truthy_str_def isDigit_def digitsVal_def digitVal_def)
  have l: "linkTagFavicon isDataUrl_spec ''https://www.example.com''
             (sample_link ''any'' \<lparr> le_sizes := Some ''256x256'' \<rparr>)
       = Some \<lparr> fs_url = ''https://www.example.com/icon.png'', fs_size = Some 256,
                 fs_format = Some ''image/png'', fs_source = ''link-tag'', fs_score = 150,
                 fs_isFallback = None \<rparr>"
    by (simp add: linkTagFavicon_def sample_link_def truthy_str_def p resolveUrl_def
        isDataUrl_spec_def startsWith_def calculateFaviconScore_def truthy_nat_def
        opt_includes_def)
  have l': "linkTagFavicon isDataUrl_spec ''https://www.example.com''
             (sample_link ''any'' \<lparr> le_sizes := Some ''512x512'' \<rparr>)
       = Some \<lparr> fs_url = ''https://www.example.com/icon.png'', fs_size = Some 512,
                 fs_format = Some ''image/png'', fs_source = ''link-tag'', fs_score = 160,
                 fs_isFallback = None \<rparr>"
    by (simp add: linkTagFavicon_def sample_link_def truthy_str_def p resolveUrl_def
        isDataUrl_spec_def startsWith_def calculateFaviconScore_def truthy_nat_def
        opt_includes_def)
  have e: "sample_link ''any'' \<lparr> le_sizes := Some ''256x256'' \<rparr> = sample_link ''256x256''"
    "sample_link ''any'' \<lparr> le_sizes := Some ''512x512'' \<rparr> = sample_link ''512x512''"
    by (simp_all add: sample_link_def)
  from link_tag_score_monotonic_in_size
    [THEN conjunct2, THEN conjunct2, THEN conjunct1, rule_format, OF conjI [OF p(1)
      conjI [OF p(2) conjI [OF l l']]]]
  have s: "fs_score \<lparr> fs_url = ''https://www.example.com/icon.png'', fs_size = Some 256,
                 fs_format = Some ''image/png'', fs_source = ''link-tag'', fs_score = 150,
                 fs_isFallback = None \<rparr>
       < fs_score \<lparr> fs_url = ''https://www.example.com/icon.png'', fs_size = Some 512,
                 fs_format = Some ''image/png'', fs_source = ''link-tag'', fs_score = 160,
                 fs_isFallback = None \<rparr>"
    by blast
  from p l l' s show ?thesis unfolding e by blast
qed

subsection \<open>Fallback handler\<close>

text \<open>
  C3. When the caller supplied a default-image URL and fetching or validating it fails,
  \<^verbatim>\<open>handleFallback\<close> answers with the error response (status 500); with a caller-supplied
  default the answer does not depend on the process-wide cached default at all, so the
  cached default is never substituted.
\<close>

theorem handleFallback_default_failure:
  "(truthy_str defaultImage \<and> fetchCustomDefault d (the defaultImage) config = Raised \<longrightarrow>
      handleFallback d c config response defaultImage sz format
        = JsonError 500 ''Failed to fetch default image'')
   \<and> (truthy_str defaultImage \<longrightarrow>
        handleFallback (d \<lparr> getCachedFallback := cached \<rparr>) c config response defaultImage sz format
          = handleFallback d c config response defaultImage sz format)"
proof -
  have failure: "handleFallback d c config response defaultImage sz format
        = JsonError 500 ''Failed to fetch default image''"
    if "truthy_str defaultImage" "fetchCustomDefault d (the defaultImage) config = Raised"
    using that by (simp add: handleFallback_def defaultImageFailed_def)
  have independent:
    "handleFallback (d \<lparr> getCachedFallback := cached \<rparr>) c config response defaultImage sz format
          = handleFallback d c config response defaultImage sz format"
    if "truthy_str defaultImage"
    using that
    by (simp add: handleFallback_def cong: attempt.case_cong if_cong prod.case_cong)
  from failure independent show ?thesis by blast
qed

theorem handleFallback_default_failure_witness:
  "truthy_str (Some ''https://mysite.com/fallback.png'')
   \<and> fetchCustomDefault sample_fallback_deps ''https://mysite.com/fallback.png'' sample_config
       = Raised
   \<and> handleFallback sample_fallback_deps sample_ctx sample_config Image
        (Some ''https://mysite.com/fallback.png'') None None
       = JsonError 500 ''Failed to fetch default image''
   \<and> handleFallback sample_fallback_deps sample_ctx sample_config Image None None None
       = BinaryBody 200 [0x3C, 0x73, 0x76, 0x67] ''image/svg+xml''"
proof -
  have a: "truthy_str (Some ''https://mysite.com/fallback.png'')"
    by (simp add: truthy_str_def)
  have b: "fetchCustomDefault sample_fallback_deps (the (Some ''https://mysite.com/fallback.png''))
             sample_config = Raised"
    by (simp add: sample_fallback_deps_def)
  from handleFallback_default_failure [THEN conjunct1, rule_format, OF conjI, OF a b]
  have c: "handleFallback sample_fallback_deps sample_ctx sample_config Image
        (Some ''https://mysite.com/fallback.png'') None None
       = JsonError 500 ''Failed to fetch default image''" .
  have d: "handleFallback sample_fallback_deps sample_ctx sample_config Image None None None
       = BinaryBody 200 [0x3C, 0x73, 0x76, 0x67] ''image/svg+xml''"
    by (simp add: handleFallback_def sample_fallback_deps_def sample_cached_def truthy_str_def
        truthy_nat_def)
  from a b c d show ?thesis by simp
qed

end
